theory Spec2Isabelle
  imports Main "HOL-Library.AList" "HOL-Library.Sublist"
begin

section \<open>Strings\<close>

text \<open>
  The program is TypeScript. Its strings are modelled as \<open>string\<close> (a list of
  \<open>char\<close>); all texts the program itself produces are ASCII, and the model reads
  input lines as ASCII too (whitespace is space, tab, line feed, vertical tab, form feed
  and carriage return; \<open>toLowerCase\<close> maps A-Z). Each helper below is one JavaScript
  string method, named after it.
\<close>

definition isSpace :: "char \<Rightarrow> bool" where
  "isSpace c = (c = CHR '' '' \<or> c = CHR 0x09 \<or> c = CHR 0x0A \<or> c = CHR 0x0B
     \<or> c = CHR 0x0C \<or> c = CHR 0x0D)"

definition trim :: "string \<Rightarrow> string" where
  "trim s = rev (dropWhile isSpace (rev (dropWhile isSpace s)))"

text \<open>\<open>s.split(c)\<close> for a one-character separator: the empty string gives one empty piece.\<close>

fun splitOn :: "char \<Rightarrow> string \<Rightarrow> string list" where
  "splitOn c [] = [[]]"
| "splitOn c (x # xs) =
     (if x = c then [] # splitOn c xs
      else (case splitOn c xs of [] \<Rightarrow> [[x]] | w # ws \<Rightarrow> (x # w) # ws))"

text \<open>\<open>s.split(/\s+/)\<close>: a run of whitespace is one separator.\<close>

fun splitWs :: "string \<Rightarrow> string list" where
  "splitWs [] = [[]]"
| "splitWs (x # xs) =
     (if isSpace x then
        (case xs of
           [] \<Rightarrow> [[], []]
         | y # ys \<Rightarrow> if isSpace y then splitWs xs else [] # splitWs xs)
      else (case splitWs xs of [] \<Rightarrow> [[x]] | w # ws \<Rightarrow> (x # w) # ws))"

fun join :: "string \<Rightarrow> string list \<Rightarrow> string" where
  "join sep [] = []"
| "join sep [x] = x"
| "join sep (x # y # ys) = x @ sep @ join sep (y # ys)"

definition startsWith :: "string \<Rightarrow> string \<Rightarrow> bool" where
  "startsWith s p = (take (length p) s = p)"

text \<open>\<open>s.includes(c)\<close> for a one-character argument.\<close>

definition includesChar :: "string \<Rightarrow> char \<Rightarrow> bool" where
  "includesChar s c = (c \<in> set s)"

text \<open>\<open>s.includes(p)\<close>: \<open>p\<close> occurs in \<open>s\<close> as a contiguous substring.\<close>

fun includesStr :: "string \<Rightarrow> string \<Rightarrow> bool" where
  "includesStr [] p = (p = [])"
| "includesStr (x # xs) p = (take (length p) (x # xs) = p \<or> includesStr xs p)"

text \<open>\<open>s.indexOf(c)\<close> and \<open>s.lastIndexOf(c)\<close>: \<open>-1\<close> when \<open>c\<close> does not occur.\<close>

definition indexOf :: "string \<Rightarrow> char \<Rightarrow> int" where
  "indexOf s c = (if c \<in> set s then int (length (takeWhile (\<lambda>x. x \<noteq> c) s)) else - 1)"

definition lastIndexOf :: "string \<Rightarrow> char \<Rightarrow> int" where
  "lastIndexOf s c =
     (if c \<in> set s then int (length s) - 1 - int (length (takeWhile (\<lambda>x. x \<noteq> c) (rev s)))
      else - 1)"

definition toLowerChar :: "char \<Rightarrow> char" where
  "toLowerChar c =
     (case map_of (zip ''ABCDEFGHIJKLMNOPQRSTUVWXYZ'' ''abcdefghijklmnopqrstuvwxyz'') c of
        Some d \<Rightarrow> d
      | None \<Rightarrow> c)"

definition toLowerCase :: "string \<Rightarrow> string" where
  "toLowerCase s = map toLowerChar s"

text \<open>A number printed in decimal, as \<open>toString\<close> and template strings print it.\<close>

fun showNat :: "nat \<Rightarrow> string" where
  "showNat n =
     (if n < 10 then [''0123456789'' ! n]
      else showNat (n div 10) @ [''0123456789'' ! (n mod 10)])"

text \<open>\<open>xs[i]\<close> on an array: \<open>None\<close> is JavaScript's \<open>undefined\<close>.\<close>

definition jsIndex :: "'a list \<Rightarrow> int \<Rightarrow> 'a option" where
  "jsIndex xs i = (if 0 \<le> i \<and> i < int (length xs) then Some (xs ! nat i) else None)"

section \<open>The file system: terminalStorage.ts\<close>

subsection \<open>Data\<close>

text \<open>
  \<open>FileSystemNode\<close>: \<open>content\<close> and \<open>children\<close> are optional fields. A \<open>Record\<close>
  of children is an association list in insertion order; a name is looked up with
  \<open>map_of\<close>, assigned with \<open>AList.update\<close> (in place when present, appended when new) and
  deleted with \<open>AList.delete\<close>. A \<open>Record\<close> is a plain object, so \<open>children[name]\<close>
  also finds the properties of \<open>Object.prototype\<close>: where the source tests
  \<open>children[name]\<close> for truth (\<open>createNode\<close>, \<open>deleteNode\<close>, \<open>echo\<close>) the model tests
  \<open>truthyChild\<close>. Outside the model are: the object that is not a node which
  \<open>getNode\<close> returns for a path whose last segment is such an inherited name and no
  child (the model has \<open>None\<close> there; as a parent it makes \<open>createNode\<close> and
  \<open>deleteNode\<close> return false, as \<open>None\<close> does); the same names in the record of
  users; an assignment to the name \<open>__proto__\<close>; and the rule that enumeration lists
  integer-like names first. Timestamps are the milliseconds of \<open>Date.now()\<close>:
  \<open>createNode\<close> takes the values of its two reads, \<open>created\<close> and \<open>modified\<close>;
  \<open>cloneNode\<close> and the commands of the interpreter take the clock as one time.
\<close>

datatype nodeType = File | Directory

datatype node = Node (ntype: nodeType) (content: "string option")
  (children: "(string \<times> node) list option")
  (owner: string) (permissions: string) (created: nat) (modified: nat)

definition set_children :: "(string \<times> node) list option \<Rightarrow> node \<Rightarrow> node" where
  "set_children ch n = Node (ntype n) (content n) ch (owner n) (permissions n) (created n) (modified n)"

definition set_permissions :: "string \<Rightarrow> node \<Rightarrow> node" where
  "set_permissions p n = Node (ntype n) (content n) (children n) (owner n) p (created n) (modified n)"

definition set_content :: "string option \<Rightarrow> node \<Rightarrow> node" where
  "set_content c n = Node (ntype n) c (children n) (owner n) (permissions n) (created n) (modified n)"

definition set_modified :: "nat \<Rightarrow> node \<Rightarrow> node" where
  "set_modified m n = Node (ntype n) (content n) (children n) (owner n) (permissions n) (created n) m"

record userEntry =
  password :: string
  isAdmin :: bool
  homeDir :: string

record fileSystem =
  root :: node
  currentUser :: string
  users :: "(string \<times> userEntry) list"

text \<open>
  \<open>localStorage\<close> under the key \<open>FS_STORAGE_KEY\<close>: \<open>None\<close> when nothing is stored,
  otherwise the snapshot that \<open>JSON.parse\<close> gives back (serialising and parsing a snapshot
  returns an equal one).
\<close>

type_synonym storage = "fileSystem option"

subsection \<open>Paths\<close>

text \<open>\<open>path.split('/').filter(Boolean)\<close>\<close>

definition segments :: "string \<Rightarrow> string list" where
  "segments path = filter (\<lambda>s. s \<noteq> []) (splitOn CHR ''/'' path)"

definition homeOf :: "fileSystem \<Rightarrow> string" where
  "homeOf fs =
     (case map_of (users fs) (currentUser fs) of
        Some u \<Rightarrow> if homeDir u \<noteq> [] then homeDir u else ''/home/'' @ currentUser fs
      | None \<Rightarrow> ''/home/'' @ currentUser fs)"

text \<open>The loop of \<open>resolvePath\<close> over the segments of the argument.\<close>

fun applySegments :: "string list \<Rightarrow> string list \<Rightarrow> string list" where
  "applySegments currentSegments [] = currentSegments"
| "applySegments currentSegments (segment # rest) =
     applySegments
       (if segment = ''..'' then (if currentSegments \<noteq> [] then butlast currentSegments else currentSegments)
        else if segment \<noteq> ''.'' then currentSegments @ [segment]
        else currentSegments)
       rest"

definition resolvePath :: "fileSystem \<Rightarrow> string \<Rightarrow> string \<Rightarrow> string" where
  "resolvePath fs path currentPath =
     (if startsWith path ''/'' then path
      else if path = ''~'' then homeOf fs
      else if startsWith path ''~/'' then homeOf fs @ drop 1 path
      else ''/'' @ join ''/'' (applySegments (segments currentPath) (segments path)))"

subsection \<open>Looking up and changing nodes\<close>

text \<open>The loop of \<open>getNode\<close>: one step per segment, from the node \<open>current\<close>.\<close>

fun walk :: "node \<Rightarrow> string list \<Rightarrow> node option" where
  "walk current [] = Some current"
| "walk current (segment # rest) =
     (case children current of
        None \<Rightarrow> None
      | Some ch \<Rightarrow> (case map_of ch segment of None \<Rightarrow> None | Some c \<Rightarrow> walk c rest))"

definition getNode :: "fileSystem \<Rightarrow> string \<Rightarrow> node option" where
  "getNode fs path = (if path = ''/'' then Some (root fs) else walk (root fs) (segments path))"

text \<open>
  The program changes a node in place through the reference \<open>getNode\<close> returned. The tree
  has no sharing (it comes from a literal, from \<open>JSON.parse\<close> or from \<open>cloneNode\<close>), so
  the change is the change of the tree at that path: \<open>updAt f segs n\<close> applies \<open>f\<close> to the
  node that \<open>walk n segs\<close> reaches.
\<close>

fun updAt :: "(node \<Rightarrow> node) \<Rightarrow> string list \<Rightarrow> node \<Rightarrow> node" where
  "updAt f [] n = f n"
| "updAt f (segment # rest) n =
     (case children n of
        None \<Rightarrow> n
      | Some ch \<Rightarrow>
          (case map_of ch segment of
             None \<Rightarrow> n
           | Some c \<Rightarrow> set_children (Some (AList.update segment (updAt f rest c) ch)) n))"

definition modifyNode :: "fileSystem \<Rightarrow> string \<Rightarrow> (node \<Rightarrow> node) \<Rightarrow> fileSystem" where
  "modifyNode fs path f = fs\<lparr>root := updAt f (segments path) (root fs)\<rparr>"

text \<open>
  The property names of \<open>Object.prototype\<close>, which every plain object inherits; each
  holds a function or, for \<open>__proto__\<close>, the prototype object: a truthy value.
\<close>

definition objectPrototypeNames :: "string list" where
  "objectPrototypeNames =
     [''constructor'', ''__defineGetter__'', ''__defineSetter__'', ''hasOwnProperty'',
      ''__lookupGetter__'', ''__lookupSetter__'', ''isPrototypeOf'', ''propertyIsEnumerable'',
      ''toString'', ''valueOf'', ''__proto__'', ''toLocaleString'']"

text \<open>\<open>children[name]\<close> is truthy: a child of that name, or an inherited property.\<close>

definition truthyChild :: "(string \<times> node) list \<Rightarrow> string \<Rightarrow> bool" where
  "truthyChild ch name = (map_of ch name \<noteq> None \<or> name \<in> set objectPrototypeNames)"

primrec cloneNode :: "nat \<Rightarrow> node \<Rightarrow> node" where
  "cloneNode now (Node t c ch ow p cr m) =
     Node t c (map_option (map (map_prod id (cloneNode now))) ch) ow p cr now"

text \<open>\<open>children\<close> of a directory, after \<open>if (!node.children) node.children = {}\<close>.\<close>

definition childrenOrEmpty :: "node \<Rightarrow> (string \<times> node) list" where
  "childrenOrEmpty n = (case children n of None \<Rightarrow> [] | Some ch \<Rightarrow> ch)"

text \<open>The parent path and the name that \<open>createNode\<close> and \<open>deleteNode\<close> cut a path into.\<close>

definition parentPathOf :: "string \<Rightarrow> string" where
  "parentPathOf path =
     (let lastSlashIndex = lastIndexOf path CHR ''/''
      in if lastSlashIndex \<le> 0 then ''/'' else take (nat lastSlashIndex) path)"

definition nameOf :: "string \<Rightarrow> string" where
  "nameOf path = drop (nat (lastIndexOf path CHR ''/'' + 1)) path"

subsection \<open>Operations\<close>

text \<open>
  Each operation takes the snapshot \<open>fs\<close> it works on, the time and the storage, and
  returns its boolean result, the snapshot as the operation left it in memory, and the
  storage (\<open>saveFileSystem\<close> stores the snapshot).
\<close>

definition saveFileSystem :: "fileSystem \<Rightarrow> storage \<Rightarrow> storage" where
  "saveFileSystem fs st = Some fs"

text \<open>
  The node \<open>createNode\<close> builds: \<open>createdAt\<close> and \<open>modifiedAt\<close> are what its two calls of
  \<open>Date.now()\<close> return.
\<close>

definition newNode :: "nodeType \<Rightarrow> string \<Rightarrow> string \<Rightarrow> nat \<Rightarrow> nat \<Rightarrow> node" where
  "newNode kind cont user createdAt modifiedAt =
     Node kind (if kind = File then Some cont else None) (if kind = File then None else Some [])
       user (if kind = File then ''rw-r--r--'' else ''rwxr-xr-x'') createdAt modifiedAt"

definition createNode ::
  "fileSystem \<Rightarrow> string \<Rightarrow> nodeType \<Rightarrow> string \<Rightarrow> nat \<Rightarrow> nat \<Rightarrow> storage \<Rightarrow>
     bool \<times> fileSystem \<times> storage" where
  "createNode fs path kind cont createdAt modifiedAt st =
     (let parentPath = parentPathOf path; name = nameOf path
      in if name = [] then (False, fs, st)
         else
           (case getNode fs parentPath of
              None \<Rightarrow> (False, fs, st)
            | Some parentNode \<Rightarrow>
                if ntype parentNode \<noteq> Directory then (False, fs, st)
                else
                  (let ch = childrenOrEmpty parentNode;
                       fs1 = modifyNode fs parentPath (set_children (Some ch))
                   in if truthyChild ch name then (False, fs1, st)
                      else
                        (let fs2 = modifyNode fs1 parentPath
                               (set_children (Some (AList.update name
                                  (newNode kind cont (currentUser fs) createdAt modifiedAt) ch)))
                         in (True, fs2, saveFileSystem fs2 st)))))"

definition deleteNode :: "fileSystem \<Rightarrow> string \<Rightarrow> storage \<Rightarrow> bool \<times> fileSystem \<times> storage" where
  "deleteNode fs path st =
     (let parentPath = parentPathOf path; name = nameOf path
      in if name = [] then (False, fs, st)
         else
           (case getNode fs parentPath of
              None \<Rightarrow> (False, fs, st)
            | Some parentNode \<Rightarrow>
                (case children parentNode of
                   None \<Rightarrow> (False, fs, st)
                 | Some ch \<Rightarrow>
                     if ntype parentNode \<noteq> Directory then (False, fs, st)
                     else if \<not> truthyChild ch name then (False, fs, st)
                     else
                       (let fs1 = modifyNode fs parentPath (set_children (Some (AList.delete name ch)))
                        in (True, fs1, saveFileSystem fs1 st)))))"

text \<open>\<open>sourcePath.match(/([^/]+)$/)\<close>: the characters after the last slash, when there are any.\<close>

definition sourceNameMatch :: "string \<Rightarrow> string option" where
  "sourceNameMatch sourcePath =
     (let name = rev (takeWhile (\<lambda>c. c \<noteq> CHR ''/'') (rev sourcePath))
      in if name = [] then None else Some name)"

text \<open>The destination directory and name that \<open>copyNode\<close> chooses; \<open>None\<close> where it returns false.\<close>

definition copyTarget :: "fileSystem \<Rightarrow> string \<Rightarrow> string \<Rightarrow> (string \<times> string) option" where
  "copyTarget fs sourcePath destinationPath =
     (if (case getNode fs destinationPath of None \<Rightarrow> False | Some destNode \<Rightarrow> ntype destNode = Directory)
      then (case sourceNameMatch sourcePath of
              None \<Rightarrow> None
            | Some name \<Rightarrow> Some (destinationPath, name))
      else
        (let lastSlash = lastIndexOf destinationPath CHR ''/''
         in if lastSlash < 0 then None
            else Some (if take (nat lastSlash) destinationPath = [] then ''/''
                       else take (nat lastSlash) destinationPath,
                       drop (nat (lastSlash + 1)) destinationPath)))"

text \<open>
  \<open>copyNode\<close>. The source node is held by reference, and \<open>cloneNode(sourceNode)\<close> runs
  after \<open>if (!destDir.children) destDir.children = {}\<close>: \<open>sourceNow\<close> is the source node
  as it is at that moment.
\<close>

definition copyNode :: "fileSystem \<Rightarrow> string \<Rightarrow> string \<Rightarrow> nat \<Rightarrow> storage \<Rightarrow> bool \<times> fileSystem \<times> storage" where
  "copyNode fs sourcePath destinationPath now st =
     (case getNode fs sourcePath of
        None \<Rightarrow> (False, fs, st)
      | Some sourceNode \<Rightarrow>
          (case copyTarget fs sourcePath destinationPath of
             None \<Rightarrow> (False, fs, st)
           | Some (destDirPath, destName) \<Rightarrow>
               (case getNode fs destDirPath of
                  None \<Rightarrow> (False, fs, st)
                | Some destDir \<Rightarrow>
                    if ntype destDir \<noteq> Directory then (False, fs, st)
                    else
                      (let ch = childrenOrEmpty destDir;
                           fs1 = modifyNode fs destDirPath (set_children (Some ch));
                           sourceNow = (case getNode fs1 sourcePath of None \<Rightarrow> sourceNode | Some n \<Rightarrow> n);
                           fs2 = modifyNode fs1 destDirPath
                             (set_children (Some (AList.update destName (cloneNode now sourceNow) ch)))
                       in (True, fs2, saveFileSystem fs2 st)))))"

definition moveNode :: "fileSystem \<Rightarrow> string \<Rightarrow> string \<Rightarrow> nat \<Rightarrow> storage \<Rightarrow> bool \<times> fileSystem \<times> storage" where
  "moveNode fs sourcePath destinationPath now st =
     (case copyNode fs sourcePath destinationPath now st of
        (True, fs1, st1) \<Rightarrow> deleteNode fs1 sourcePath st1
      | (False, fs1, st1) \<Rightarrow> (False, fs1, st1))"

text \<open>\<open>/^[r-][w-][x-][r-][w-][x-][r-][w-][x-]$/.test(mode)\<close>\<close>

definition strictMode :: "string \<Rightarrow> bool" where
  "strictMode mode =
     (case mode of
        [a, b, c, d, e, f, g, h, i] \<Rightarrow>
          (a = CHR ''r'' \<or> a = CHR ''-'') \<and> (b = CHR ''w'' \<or> b = CHR ''-'') \<and> (c = CHR ''x'' \<or> c = CHR ''-'') \<and>
          (d = CHR ''r'' \<or> d = CHR ''-'') \<and> (e = CHR ''w'' \<or> e = CHR ''-'') \<and> (f = CHR ''x'' \<or> f = CHR ''-'') \<and>
          (g = CHR ''r'' \<or> g = CHR ''-'') \<and> (h = CHR ''w'' \<or> h = CHR ''-'') \<and> (i = CHR ''x'' \<or> i = CHR ''-'')
      | _ \<Rightarrow> False)"

definition changePermissions :: "fileSystem \<Rightarrow> string \<Rightarrow> string \<Rightarrow> storage \<Rightarrow> bool \<times> fileSystem \<times> storage" where
  "changePermissions fs path mode st =
     (case getNode fs path of
        None \<Rightarrow> (False, fs, st)
      | Some n \<Rightarrow>
          if \<not> strictMode mode then
            (let fs1 = modifyNode fs path (set_permissions mode)
             in (True, fs1, saveFileSystem fs1 st))
          else (False, fs, st))"

definition authenticateUser :: "fileSystem \<Rightarrow> string \<Rightarrow> string \<Rightarrow> bool" where
  "authenticateUser fs username pw =
     (case map_of (users fs) username of
        None \<Rightarrow> False
      | Some u \<Rightarrow> password u = pw)"

definition switchUser :: "fileSystem \<Rightarrow> string \<Rightarrow> storage \<Rightarrow> bool \<times> fileSystem \<times> storage" where
  "switchUser fs username st =
     (case map_of (users fs) username of
        None \<Rightarrow> (False, fs, st)
      | Some u \<Rightarrow> (let fs1 = fs\<lparr>currentUser := username\<rparr> in (True, fs1, saveFileSystem fs1 st)))"

text \<open>
  \<open>addUser\<close>: \<open>createNode\<close> is called for its effect only; the profile file is put
  in place whenever the home directory then exists with children.
\<close>

definition addUser ::
  "fileSystem \<Rightarrow> string \<Rightarrow> string \<Rightarrow> bool \<Rightarrow> nat \<Rightarrow> storage \<Rightarrow> bool \<times> fileSystem \<times> storage" where
  "addUser fs username pw admin now st =
     (if map_of (users fs) username \<noteq> None then (False, fs, st)
      else
        (let fs1 = fs\<lparr>users := AList.update username
                     \<lparr>password = pw, isAdmin = admin, homeDir = ''/home/'' @ username\<rparr> (users fs)\<rparr>;
             (ok, fs2, st2) = createNode fs1 (''/home/'' @ username) Directory [] now now st;
             fs3 =
               (case getNode fs2 (''/home/'' @ username) of
                  None \<Rightarrow> fs2
                | Some home \<Rightarrow>
                    (case children home of
                       None \<Rightarrow> fs2
                     | Some ch \<Rightarrow>
                         modifyNode fs2 (''/home/'' @ username)
                           (set_children (Some (AList.update ''.bashrc''
                              (Node File
                                 (Some (''# ~/.bashrc for '' @ username @
                                    ([CHR 0x0A] @ ''# User specific settings'' @ [CHR 0x0A] @ ''PS1='' @ [CHR 0x22, CHR 0x5C] @ ''['' @ [CHR 0x5C] @ ''033[01;32m'' @ [CHR 0x5C] @ '']'' @ [CHR 0x5C] @ ''u@'' @ [CHR 0x5C] @ ''h:'' @ [CHR 0x5C] @ ''w'' @ [CHR 0x5C] @ ''$'' @ [CHR 0x5C] @ ''['' @ [CHR 0x5C] @ ''033[00m'' @ [CHR 0x5C] @ ''] '' @ [CHR 0x22])))
                                 None username ''rw-r--r--'' now now)
                              ch)))))
         in (True, fs3, saveFileSystem fs3 st2)))"

subsection \<open>The default snapshot and the two places a snapshot lives\<close>

text \<open>
  \<open>defaultFileSystem\<close> is the module's literal; \<open>t\<close> is the time the module was loaded
  (every \<open>Date.now()\<close> of the literal).
\<close>

definition defaultRoot :: "nat \<Rightarrow> node" where
  "defaultRoot t =
     Node Directory None (Some [
       (''home'',
         Node Directory None (Some [
           (''ubuntu'',
             Node Directory None (Some [
               (''welcome.txt'',
                 Node File
                   (Some (''Welcome to Ubuntu Terminal!'' @ [CHR 0x0A] @ ''Type '' @ [CHR 0x22] @ ''help'' @ [CHR 0x22] @ '' to see available commands.''))
                   None ''ubuntu'' ''rw-r--r--'' t t),
               (''.bashrc'',
                 Node File
                   (Some (''# ~/.bashrc: executed by bash for non-login shells'' @ [CHR 0x0A] @ ''# If not running interactively, don'' @ [CHR 0x27] @ ''t do anything'' @ [CHR 0x0A] @ ''[[ '' @ [CHR 0x22] @ ''$-'' @ [CHR 0x22] @ '' != *i* ]] && return'' @ [CHR 0x0A] @ ''# Don'' @ [CHR 0x27] @ ''t put duplicate lines in the history'' @ [CHR 0x0A] @ ''HISTCONTROL=ignoreboth''))
                   None ''ubuntu'' ''rw-r--r--'' t t)])
               ''ubuntu'' ''rwxr-xr-x'' t t)])
           ''root'' ''rwxr-xr-x'' t t),
       (''etc'',
         Node Directory None (Some [
           (''passwd'',
             Node File
               (Some (''root:x:0:0:root:/root:/bin/bash'' @ [CHR 0x0A] @ ''ubuntu:x:1000:1000:Ubuntu:/home/ubuntu:/bin/bash''))
               None ''root'' ''rw-r--r--'' t t),
           (''hostname'',
             Node File
               (Some ''ubuntu-terminal'')
               None ''root'' ''rw-r--r--'' t t),
           (''hosts'',
             Node File
               (Some (''127.0.0.1 localhost'' @ [CHR 0x0A] @ ''127.0.1.1 ubuntu-terminal''))
               None ''root'' ''rw-r--r--'' t t)])
           ''root'' ''rwxr-xr-x'' t t),
       (''bin'',
         Node Directory None (Some [])
           ''root'' ''rwxr-xr-x'' t t),
       (''usr'',
         Node Directory None (Some [
           (''bin'',
             Node Directory None (Some [])
               ''root'' ''rwxr-xr-x'' t t)])
           ''root'' ''rwxr-xr-x'' t t),
       (''var'',
         Node Directory None (Some [
           (''log'',
             Node Directory None (Some [
               (''syslog'',
                 Node File
                   (Some (''Apr 16 00:00:00 ubuntu-terminal systemd[1]: Started User Manager for UID 1000.'' @ [CHR 0x0A] @ ''Apr 16 00:00:01 ubuntu-terminal systemd[1]: Starting System Logger...'' @ [CHR 0x0A] @ ''Apr 16 00:00:01 ubuntu-terminal systemd[1]: Started System Logger.''))
                   None ''root'' ''rw-r--r--'' t t)])
               ''root'' ''rwxr-xr-x'' t t)])
           ''root'' ''rwxr-xr-x'' t t),
       (''tmp'',
         Node Directory None (Some [])
           ''root'' ''rwxrwxrwx'' t t),
       (''root'',
         Node Directory None (Some [
           (''.bashrc'',
             Node File
               (Some (''# ~/.bashrc: executed by bash for non-login shells'' @ [CHR 0x0A] @ ''# Root user specific settings'' @ [CHR 0x0A] @ ''PS1='' @ [CHR 0x22, CHR 0x5C] @ ''['' @ [CHR 0x5C] @ ''033[01;31m'' @ [CHR 0x5C] @ '']'' @ [CHR 0x5C] @ ''u@'' @ [CHR 0x5C] @ ''h:'' @ [CHR 0x5C] @ ''w'' @ [CHR 0x5C] @ ''$'' @ [CHR 0x5C] @ ''['' @ [CHR 0x5C] @ ''033[00m'' @ [CHR 0x5C] @ ''] '' @ [CHR 0x22]))
               None ''root'' ''rw-------'' t t)])
           ''root'' ''rwx------'' t t)])
       ''root'' ''rwxr-xr-x'' t t"

definition defaultFileSystem :: "nat \<Rightarrow> fileSystem" where
  "defaultFileSystem t =
     \<lparr>root = defaultRoot t,
      currentUser = ''ubuntu'',
      users =
        [(''root'', \<lparr>password = ''toor'', isAdmin = True, homeDir = ''/root''\<rparr>),
         (''ubuntu'', \<lparr>password = ''ubuntu'', isAdmin = False, homeDir = ''/home/ubuntu''\<rparr>)]\<rparr>"

text \<open>
  \<open>loadFileSystem\<close> returns a fresh object parsed from the storage, or, when nothing is
  stored, the module's own object \<open>defaultFileSystem\<close>, which its callers then change in
  place. The world is therefore the storage together with the current value of that
  object.
\<close>

record world =
  storage :: storage
  defaultObject :: fileSystem

definition loadFileSystem :: "world \<Rightarrow> fileSystem" where
  "loadFileSystem w = (case storage w of Some fs \<Rightarrow> fs | None \<Rightarrow> defaultObject w)"

text \<open>
  \<open>afterCall w fs st\<close>: the world after code that loaded its snapshot in the world \<open>w\<close>,
  left it with the value \<open>fs\<close> and the storage as \<open>st\<close>. The module's object has changed
  exactly when the loaded snapshot was that object.
\<close>

definition afterCall :: "world \<Rightarrow> fileSystem \<Rightarrow> storage \<Rightarrow> world" where
  "afterCall w fs st =
     \<lparr>storage = st, defaultObject = (if storage w = None then fs else defaultObject w)\<rparr>"

section \<open>The command interpreter: commandProcessor.ts\<close>

subsection \<open>History\<close>

record commandHistory =
  commands :: "string list"
  position :: int

definition initialCommandHistory :: commandHistory where
  "initialCommandHistory = \<lparr>commands = [], position = - 1\<rparr>"

definition addToHistory :: "commandHistory \<Rightarrow> string \<Rightarrow> commandHistory" where
  "addToHistory h command =
     (let cs =
        (if trim command \<noteq> [] \<and> (length (commands h) = 0 \<or>
              jsIndex (commands h) (int (length (commands h)) - 1) \<noteq> Some command)
         then commands h @ [command]
         else commands h)
      in \<lparr>commands = cs, position = int (length cs)\<rparr>)"

definition getPreviousCommand :: "commandHistory \<Rightarrow> string \<times> commandHistory" where
  "getPreviousCommand h =
     (if length (commands h) = 0 then ([], h)
      else
        (let h1 = (if position h > 0 then h\<lparr>position := position h - 1\<rparr> else h)
         in (case jsIndex (commands h1) (position h1) of
               None \<Rightarrow> ([], h1)
             | Some c \<Rightarrow> (c, h1))))"

text \<open>
  \<open>getNextCommand\<close> returns \<open>commands[position]\<close> as it is: \<open>None\<close> is \<open>undefined\<close>
  (a cursor that was below \<open>-1\<close>).
\<close>

definition getNextCommand :: "commandHistory \<Rightarrow> string option \<times> commandHistory" where
  "getNextCommand h =
     (if position h < int (length (commands h)) - 1 then
        (let h1 = h\<lparr>position := position h + 1\<rparr>
         in (jsIndex (commands h1) (position h1), h1))
      else (Some [], h\<lparr>position := int (length (commands h))\<rparr>))"

subsection \<open>State and results\<close>

text \<open>\<open>TerminalState\<close>; its field \<open>output\<close> is \<open>outputLines\<close> here.\<close>

record terminalState =
  currentPath :: string
  outputLines :: "string list"
  currentInput :: string
  inputPosition :: nat
  isPasswordMode :: bool
  tempUser :: string
  sudoMode :: bool
  sudoCommand :: string

definition initialTerminalState :: terminalState where
  "initialTerminalState =
     \<lparr>currentPath = ''/home/ubuntu'',
      outputLines = [''Welcome to Ubuntu 22.04.1 LTS (GNU/Linux 5.15.0-56-generic x86_64)'',
                (''Type '' @ [CHR 0x22] @ ''help'' @ [CHR 0x22] @ '' to see available commands.'')],
      currentInput = [],
      inputPosition = 0,
      isPasswordMode = False,
      tempUser = [],
      sudoMode = False,
      sudoCommand = []\<rparr>"

text \<open>\<open>CommandResult\<close>: every field but the output is optional.\<close>

record commandResult =
  r_output :: "string list"
  r_newPath :: "string option"
  r_isPasswordMode :: "bool option"
  r_tempUser :: "string option"
  r_sudoMode :: "bool option"
  r_sudoCommand :: "string option"

text \<open>\<open>{ output: out }\<close>\<close>

definition result :: "string list \<Rightarrow> commandResult" where
  "result out =
     \<lparr>r_output = out, r_newPath = None, r_isPasswordMode = None, r_tempUser = None,
      r_sudoMode = None, r_sudoCommand = None\<rparr>"

text \<open>
  What a command reads from outside the program: the clock, the printed forms of the
  date, and the process number that \<open>Math.floor(Math.random() * 9000) + 1000\<close> draws.
\<close>

record env =
  dateNow :: nat
  dateString :: string
  timeString :: string
  formatDate :: "nat \<Rightarrow> string"
  randomPid :: nat

text \<open>\<open>${args[i]}\<close> in a template string: a missing argument prints as \<open>undefined\<close>.\<close>

definition argStr :: "string list \<Rightarrow> int \<Rightarrow> string" where
  "argStr args i = (case jsIndex args i of None \<Rightarrow> ''undefined'' | Some a \<Rightarrow> a)"

text \<open>\<open>args[i] || d\<close>\<close>

definition argOr :: "string list \<Rightarrow> int \<Rightarrow> string \<Rightarrow> string" where
  "argOr args i d = (case jsIndex args i of None \<Rightarrow> d | Some a \<Rightarrow> if a = [] then d else a)"

type_synonym outcome = "commandResult \<times> fileSystem \<times> storage"

subsection \<open>The commands\<close>

definition caseCd :: "string list \<Rightarrow> terminalState \<Rightarrow> fileSystem \<Rightarrow> storage \<Rightarrow> outcome" where
  "caseCd args state fs st =
     (let targetPath = argOr args 1 ''~'';
          resolvedPath = resolvePath fs targetPath (currentPath state)
      in case getNode fs resolvedPath of
           None \<Rightarrow> (result [''cd: '' @ argStr args 1 @ '': No such file or directory''], fs, st)
         | Some targetNode \<Rightarrow>
             if ntype targetNode \<noteq> Directory
             then (result [''cd: '' @ argStr args 1 @ '': Not a directory''], fs, st)
             else ((result [])\<lparr>r_newPath := Some resolvedPath\<rparr>, fs, st))"

text \<open>The option loop of \<open>ls\<close>: the path, \<open>showHidden\<close> and \<open>longFormat\<close>.\<close>

fun lsOptions :: "fileSystem \<Rightarrow> string \<Rightarrow> string list \<Rightarrow> string \<times> bool \<times> bool \<Rightarrow> string \<times> bool \<times> bool" where
  "lsOptions fs cur [] acc = acc"
| "lsOptions fs cur (a # rest) (lsPath, showHidden, longFormat) =
     lsOptions fs cur rest
       (if startsWith a ''-''
        then (lsPath, showHidden \<or> includesChar a CHR ''a'', longFormat \<or> includesChar a CHR ''l'')
        else (resolvePath fs a cur, showHidden, longFormat))"

text \<open>
  \<open>ls\<close> on a file returns \<open>[args[1]]\<close>; a missing \<open>args[1]\<close> is an \<open>undefined\<close> entry,
  which the terminal renders as an empty line.
\<close>

definition caseLs :: "env \<Rightarrow> string list \<Rightarrow> terminalState \<Rightarrow> fileSystem \<Rightarrow> storage \<Rightarrow> outcome" where
  "caseLs e args state fs st =
     (case lsOptions fs (currentPath state) (drop 1 args) (currentPath state, False, False) of
        (lsPath, showHidden, longFormat) \<Rightarrow>
          (case getNode fs lsPath of
             None \<Rightarrow>
               (result [(''ls: cannot access '' @ [CHR 0x27]) @ argStr args 1 @ ([CHR 0x27] @ '': No such file or directory'')], fs, st)
           | Some lsNode \<Rightarrow>
               if ntype lsNode = File then (result [argOr args 1 []], fs, st)
               else
                 (case children lsNode of
                    None \<Rightarrow> (result [], fs, st)
                  | Some ch \<Rightarrow>
                      (let entries = filter (\<lambda>(name, n). showHidden \<or> \<not> startsWith name ''.'') ch
                       in if longFormat then
                            (result
                               (map (\<lambda>(name, n).
                                   (if ntype n = Directory then ''d'' else ''-'') @ permissions n @ '' '' @
                                   owner n @ '' '' @
                                   (if ntype n = File
                                    then showNat (case content n of None \<Rightarrow> 0 | Some c \<Rightarrow> length c)
                                    else ''4096'') @ '' '' @
                                   formatDate e (modified n) @ '' '' @ name @
                                   (if ntype n = Directory then ''/'' else []))
                                  entries),
                             fs, st)
                          else
                            (let names = map (\<lambda>(name, n). if ntype n = Directory then name @ ''/'' else name) entries
                             in if length names = 0 then (result [[]], fs, st)
                                else (result [join ''  '' names], fs, st))))))"

definition caseMkdir :: "env \<Rightarrow> string list \<Rightarrow> terminalState \<Rightarrow> fileSystem \<Rightarrow> storage \<Rightarrow> outcome" where
  "caseMkdir e args state fs st =
     (if length args < 2 then (result [''mkdir: missing operand''], fs, st)
      else
        (let dirPath = resolvePath fs (argStr args 1) (currentPath state)
         in case createNode fs dirPath Directory [] (dateNow e) (dateNow e) st of
              (True, fs1, st1) \<Rightarrow> (result [], fs1, st1)
            | (False, fs1, st1) \<Rightarrow>
                (result [(''mkdir: cannot create directory '' @ [CHR 0x27]) @ argStr args 1 @ ([CHR 0x27] @ '': File exists or invalid path'')],
                 fs1, st1)))"

definition caseTouch :: "env \<Rightarrow> string list \<Rightarrow> terminalState \<Rightarrow> fileSystem \<Rightarrow> storage \<Rightarrow> outcome" where
  "caseTouch e args state fs st =
     (if length args < 2 then (result [''touch: missing file operand''], fs, st)
      else
        (let filePath = resolvePath fs (argStr args 1) (currentPath state)
         in case createNode fs filePath File [] (dateNow e) (dateNow e) st of
              (True, fs1, st1) \<Rightarrow> (result [], fs1, st1)
            | (False, fs1, st1) \<Rightarrow>
                (result [(''touch: cannot touch '' @ [CHR 0x27]) @ argStr args 1 @ ([CHR 0x27] @ '': File exists or invalid path'')],
                 fs1, st1)))"

text \<open>\<open>node.content || ''\<close>\<close>

definition contentOrEmpty :: "node \<Rightarrow> string" where
  "contentOrEmpty n = (case content n of None \<Rightarrow> [] | Some c \<Rightarrow> c)"

definition caseCat :: "string list \<Rightarrow> terminalState \<Rightarrow> fileSystem \<Rightarrow> storage \<Rightarrow> outcome" where
  "caseCat args state fs st =
     (if length args < 2 then (result [''cat: missing file operand''], fs, st)
      else
        (let catPath = resolvePath fs (argStr args 1) (currentPath state)
         in case getNode fs catPath of
              None \<Rightarrow> (result [''cat: '' @ argStr args 1 @ '': No such file or directory''], fs, st)
            | Some fileNode \<Rightarrow>
                if ntype fileNode \<noteq> Directory
                then (result (splitOn CHR 0x0A (contentOrEmpty fileNode)), fs, st)
                else (result [''cat: '' @ argStr args 1 @ '': Is a directory''], fs, st)))"

text \<open>The option loop of \<open>rm\<close>: \<open>recursive\<close>, \<open>force\<close> and the path.\<close>

fun rmOptions :: "string list \<Rightarrow> bool \<times> bool \<times> string \<Rightarrow> bool \<times> bool \<times> string" where
  "rmOptions [] acc = acc"
| "rmOptions (a # rest) (recursive, force, rmPath) =
     rmOptions rest
       (if startsWith a ''-''
        then (recursive \<or> includesChar a CHR ''r'' \<or> includesChar a CHR ''R'',
              force \<or> includesChar a CHR ''f'', rmPath)
        else (recursive, force, a))"

definition caseRm :: "string list \<Rightarrow> terminalState \<Rightarrow> fileSystem \<Rightarrow> storage \<Rightarrow> outcome" where
  "caseRm args state fs st =
     (case rmOptions (drop 1 args) (False, False, []) of
        (recursive, force, rmPath) \<Rightarrow>
          if rmPath = [] then (result [''rm: missing operand''], fs, st)
          else
            (let rmNodePath = resolvePath fs rmPath (currentPath state)
             in case getNode fs rmNodePath of
                  None \<Rightarrow>
                    if force then (result [], fs, st)
                    else (result [(''rm: cannot remove '' @ [CHR 0x27]) @ rmPath @ ([CHR 0x27] @ '': No such file or directory'')], fs, st)
                | Some rmNode \<Rightarrow>
                    if ntype rmNode = Directory \<and> \<not> recursive
                    then (result [(''rm: cannot remove '' @ [CHR 0x27]) @ rmPath @ ([CHR 0x27] @ '': Is a directory'')], fs, st)
                    else
                      (case deleteNode fs rmNodePath st of
                         (True, fs1, st1) \<Rightarrow> (result [], fs1, st1)
                       | (False, fs1, st1) \<Rightarrow> (result [(''rm: cannot remove '' @ [CHR 0x27]) @ rmPath @ [CHR 0x27]], fs1, st1))))"

text \<open>
  \<open>echo\<close>. In append mode, when the target is absent and \<open>createNode\<close> fails, the
  \<open>case\<close> of the \<open>switch\<close> ends without a \<open>return\<close>, and control falls through into
  \<open>case 'rm'\<close> with the same arguments. In write mode a name that is no child but an
  inherited property is truthy and has no type \<open>file\<close>: the last branch reports a
  directory.
\<close>

definition caseEcho :: "env \<Rightarrow> string list \<Rightarrow> terminalState \<Rightarrow> fileSystem \<Rightarrow> storage \<Rightarrow> outcome" where
  "caseEcho e args state fs st =
     (let echoText = join '' '' (drop 1 args);
          redirectIndex = indexOf echoText CHR ''>''
      in if redirectIndex \<ge> 0 then
           (let cont = trim (take (nat redirectIndex) echoText);
                redirectPath = trim (drop (nat (redirectIndex + 1)) echoText)
            in if startsWith redirectPath ''>'' then
                 (let redirectPath1 = trim (drop 1 redirectPath);
                      appendPath = resolvePath fs redirectPath1 (currentPath state)
                  in case getNode fs appendPath of
                       None \<Rightarrow>
                         (case createNode fs appendPath File cont (dateNow e) (dateNow e) st of
                            (True, fs1, st1) \<Rightarrow> (result [], fs1, st1)
                          | (False, fs1, st1) \<Rightarrow> caseRm args state fs1 st1)
                     | Some appendNode \<Rightarrow>
                         if ntype appendNode = File then
                           (let fs1 = modifyNode fs appendPath
                                  (\<lambda>n. set_modified (dateNow e)
                                     (set_content (Some (contentOrEmpty n @ [CHR 0x0A] @ cont)) n))
                            in (result [], fs1, saveFileSystem fs1 st))
                         else (result [''echo: '' @ redirectPath1 @ '': Is a directory''], fs, st))
               else
                 (let writePath = resolvePath fs redirectPath (currentPath state);
                      parentPath = parentPathOf writePath;
                      name = nameOf writePath
                  in case getNode fs parentPath of
                       None \<Rightarrow> (result [''echo: '' @ redirectPath @ '': No such file or directory''], fs, st)
                     | Some parentNode \<Rightarrow>
                         if ntype parentNode \<noteq> Directory
                         then (result [''echo: '' @ redirectPath @ '': No such file or directory''], fs, st)
                         else
                           (let ch = childrenOrEmpty parentNode;
                                fs1 = modifyNode fs parentPath (set_children (Some ch))
                            in case map_of ch name of
                                 None \<Rightarrow>
                                   if name \<in> set objectPrototypeNames
                                   then (result [''echo: '' @ redirectPath @ '': Is a directory''], fs1, st)
                                   else
                                     (case createNode fs1 writePath File cont (dateNow e) (dateNow e) st of
                                        (ok, fs2, st2) \<Rightarrow> (result [], fs2, saveFileSystem fs2 st2))
                               | Some child \<Rightarrow>
                                   if ntype child = File then
                                     (let fs2 = modifyNode fs1 parentPath
                                            (set_children (Some (AList.update name
                                               (set_modified (dateNow e) (set_content (Some cont) child)) ch)))
                                      in (result [], fs2, saveFileSystem fs2 st))
                                   else (result [''echo: '' @ redirectPath @ '': Is a directory''], fs1, st))))
         else (result [echoText], fs, st))"

definition caseSu :: "string list \<Rightarrow> terminalState \<Rightarrow> fileSystem \<Rightarrow> storage \<Rightarrow> outcome" where
  "caseSu args state fs st =
     (let targetUser = argOr args 1 ''root''
      in case map_of (users fs) targetUser of
           None \<Rightarrow> (result [''su: user '' @ targetUser @ '' does not exist''], fs, st)
         | Some u \<Rightarrow>
             if currentUser fs = ''root'' \<or> targetUser = currentUser fs then
               (case switchUser fs targetUser st of
                  (switched, fs1, st1) \<Rightarrow> ((result [])\<lparr>r_newPath := Some (homeDir u)\<rparr>, fs1, st1))
             else
               ((result [''Password for '' @ targetUser @ '':''])
                  \<lparr>r_isPasswordMode := Some True, r_tempUser := Some targetUser\<rparr>, fs, st))"

definition caseAdduser :: "env \<Rightarrow> string list \<Rightarrow> terminalState \<Rightarrow> fileSystem \<Rightarrow> storage \<Rightarrow> outcome" where
  "caseAdduser e args state fs st =
     (if currentUser fs \<noteq> ''root''
      then (result [''adduser: Only root may add a user or group to the system.''], fs, st)
      else if length args < 2 then (result [''adduser: Missing username''], fs, st)
      else
        (let newUsername = argStr args 1;
             newPassword = argOr args 2 newUsername
         in case addUser fs newUsername newPassword False (dateNow e) st of
              (True, fs1, st1) \<Rightarrow>
                (result [''Added user '' @ newUsername @ ''. Home directory created at /home/'' @ newUsername],
                 fs1, st1)
            | (False, fs1, st1) \<Rightarrow>
                (result [(''adduser: The user '' @ [CHR 0x27]) @ newUsername @ ([CHR 0x27] @ '' already exists.'')], fs1, st1)))"

definition casePasswd :: "string list \<Rightarrow> terminalState \<Rightarrow> fileSystem \<Rightarrow> storage \<Rightarrow> outcome" where
  "casePasswd args state fs st =
     (if length args < 2 then (result [''passwd: Missing username''], fs, st)
      else if currentUser fs \<noteq> ''root'' \<and> currentUser fs \<noteq> argStr args 1
      then (result [''passwd: Only root can change passwords for other users''], fs, st)
      else
        (case map_of (users fs) (argStr args 1) of
           None \<Rightarrow> (result [(''passwd: user '' @ [CHR 0x27]) @ argStr args 1 @ ([CHR 0x27] @ '' does not exist'')], fs, st)
         | Some u \<Rightarrow>
             if length args < 3 then (result [''passwd: Missing new password''], fs, st)
             else
               (let fs1 = fs\<lparr>users := AList.update (argStr args 1) (u\<lparr>password := argStr args 2\<rparr>) (users fs)\<rparr>
                in (result [''Password for '' @ argStr args 1 @ '' changed''], fs1, saveFileSystem fs1 st))))"

definition caseApt :: "string list \<Rightarrow> commandResult" where
  "caseApt args =
     (let aptCommand = argOr args 1 []
      in if aptCommand = ''update'' then
           result [''Reading package lists... Done'', ''Building dependency tree... Done'',
                   ''All packages are up to date.'']
         else if aptCommand = ''upgrade'' then
           result [''Reading package lists... Done'', ''Building dependency tree... Done'',
                   ''Calculating upgrade... Done'',
                   ''0 upgraded, 0 newly installed, 0 to remove and 0 not upgraded.'']
         else if aptCommand = ''install'' then
           (if length args < 3 then result [''apt: Missing package name'']
            else result [''Simulating installation of '' @ join '', '' (drop 2 args) @ ''...'', ''Done!''])
         else
           result [''apt-get commands:'',
                   ''  update - Retrieve new lists of packages'',
                   ''  upgrade - Perform an upgrade'',
                   ''  install - Install packages''])"

definition caseGrep :: "string list \<Rightarrow> terminalState \<Rightarrow> fileSystem \<Rightarrow> storage \<Rightarrow> outcome" where
  "caseGrep args state fs st =
     (if length args < 3 then (result [''grep: missing pattern or file''], fs, st)
      else
        (let pattern = argStr args 1;
             grepPath = resolvePath fs (argStr args 2) (currentPath state)
         in case getNode fs grepPath of
              None \<Rightarrow> (result [''grep: '' @ argStr args 2 @ '': No such file or directory''], fs, st)
            | Some grepNode \<Rightarrow>
                if ntype grepNode \<noteq> File
                then (result [''grep: '' @ argStr args 2 @ '': Is a directory''], fs, st)
                else
                  (let matchingLines =
                         filter (\<lambda>line. includesStr line pattern) (splitOn CHR 0x0A (contentOrEmpty grepNode))
                   in (result (if length matchingLines > 0 then matchingLines else [[]]), fs, st))))"

definition caseUname :: "string list \<Rightarrow> commandResult" where
  "caseUname args =
     (if ''-a'' \<in> set args
      then result [''Linux terminal-simulation 5.15.0-56-generic #1 SMP Ubuntu 22.04.1 LTS x86_64 GNU/Linux'']
      else result [''Linux''])"

definition caseDf :: commandResult where
  "caseDf =
     result [''Filesystem     1K-blocks    Used Available Use% Mounted on'',
             ''udev             8151440       0   8151440   0% /dev'',
             ''tmpfs            1638624    1852   1636772   1% /run'',
             ''/dev/sda1      165735648 5121324 151918800   4% /'']"

definition casePs :: "env \<Rightarrow> commandResult" where
  "casePs e =
     result [''PID TTY          TIME CMD'',
             ''  1 pts/0    00:00:00 bash'',
             ''  '' @ showNat (randomPid e) @ '' pts/0    00:00:00 ps'']"

definition caseTop :: "env \<Rightarrow> fileSystem \<Rightarrow> commandResult" where
  "caseTop e fs =
     result [''top - '' @ timeString e @ '' up 2 days,  3:12,  1 user,  load average: 0.00, 0.01, 0.05'',
             ''Tasks:   3 total,   1 running,   2 sleeping,   0 stopped,   0 zombie'',
             ''%Cpu(s):  2.0 us,  1.0 sy,  0.0 ni, 97.0 id,  0.0 wa,  0.0 hi,  0.0 si,  0.0 st'',
             ''MiB Mem :  16000.0 total,  14000.0 free,   1200.0 used,    800.0 buff/cache'',
             ''MiB Swap:   2048.0 total,   2048.0 free,      0.0 used.  14000.0 avail Mem'',
             [],
             ''  PID USER      PR  NI    VIRT    RES    SHR S  %CPU  %MEM     TIME+ COMMAND'',
             ''    1 root      20   0   10000   2400   1600 S   0.0   0.0   0:00.10 init'',
             showNat (randomPid e) @ '' '' @ currentUser fs @
               ''      20   0   12000   3000   2000 R   0.7   0.0   0:00.01 top'',
             ''(press q to quit)'']"

definition caseCp :: "env \<Rightarrow> string list \<Rightarrow> terminalState \<Rightarrow> fileSystem \<Rightarrow> storage \<Rightarrow> outcome" where
  "caseCp e args state fs st =
     (if length args < 3 then (result [''cp: missing file operand''], fs, st)
      else
        (let sourcePath = resolvePath fs (argStr args 1) (currentPath state);
             destinationPath = resolvePath fs (argStr args 2) (currentPath state)
         in case getNode fs sourcePath of
              None \<Rightarrow> (result [(''cp: cannot stat '' @ [CHR 0x27]) @ argStr args 1 @ ([CHR 0x27] @ '': No such file or directory'')], fs, st)
            | Some sourceNode \<Rightarrow>
                (case copyNode fs sourcePath destinationPath (dateNow e) st of
                   (True, fs1, st1) \<Rightarrow> (result [], fs1, st1)
                 | (False, fs1, st1) \<Rightarrow>
                     (result [(''cp: cannot copy '' @ [CHR 0x27]) @ argStr args 1 @ ([CHR 0x27] @ '' to '' @ [CHR 0x27]) @ argStr args 2 @ [CHR 0x27]], fs1, st1))))"

definition caseMv :: "env \<Rightarrow> string list \<Rightarrow> terminalState \<Rightarrow> fileSystem \<Rightarrow> storage \<Rightarrow> outcome" where
  "caseMv e args state fs st =
     (if length args < 3 then (result [''mv: missing file operand''], fs, st)
      else
        (let mvSourcePath = resolvePath fs (argStr args 1) (currentPath state);
             mvDestinationPath = resolvePath fs (argStr args 2) (currentPath state)
         in case getNode fs mvSourcePath of
              None \<Rightarrow> (result [(''mv: cannot stat '' @ [CHR 0x27]) @ argStr args 1 @ ([CHR 0x27] @ '': No such file or directory'')], fs, st)
            | Some mvSourceNode \<Rightarrow>
                (case moveNode fs mvSourcePath mvDestinationPath (dateNow e) st of
                   (True, fs1, st1) \<Rightarrow> (result [], fs1, st1)
                 | (False, fs1, st1) \<Rightarrow>
                     (result [(''mv: cannot move '' @ [CHR 0x27]) @ argStr args 1 @ ([CHR 0x27] @ '' to '' @ [CHR 0x27]) @ argStr args 2 @ [CHR 0x27]], fs1, st1))))"

definition caseChmod :: "string list \<Rightarrow> terminalState \<Rightarrow> fileSystem \<Rightarrow> storage \<Rightarrow> outcome" where
  "caseChmod args state fs st =
     (if length args < 3 then (result [''chmod: missing operand''], fs, st)
      else
        (let mode = argStr args 1;
             chmodPath = resolvePath fs (argStr args 2) (currentPath state)
         in case getNode fs chmodPath of
              None \<Rightarrow> (result [(''chmod: cannot access '' @ [CHR 0x27]) @ argStr args 2 @ ([CHR 0x27] @ '': No such file or directory'')], fs, st)
            | Some chmodNode \<Rightarrow>
                (case changePermissions fs chmodPath mode st of
                   (True, fs1, st1) \<Rightarrow> (result [], fs1, st1)
                 | (False, fs1, st1) \<Rightarrow> (result [(''chmod: invalid mode: '' @ [CHR 0x27]) @ mode @ [CHR 0x27]], fs1, st1))))"

definition caseMan :: "string list \<Rightarrow> commandResult" where
  "caseMan args =
     (if length args < 2 then result [''What manual page do you want?'']
      else
        (let manCommand = toLowerCase (argStr args 1)
         in if manCommand = ''ls'' then
              result [''NAME'',
                      ''       ls - list directory contents'',
                      [],
                      ''SYNOPSIS'',
                      ''       ls [OPTION]... [FILE]...'',
                      [],
                      ''DESCRIPTION'',
                      ''       List information about the FILEs (the current directory by default).'',
                      ''       Sort entries alphabetically.'',
                      [],
                      ''       -a, --all'',
                      ''              do not ignore entries starting with .'',
                      [],
                      ''       -l     use a long listing format'']
            else if manCommand = ''cd'' then
              result [''NAME'',
                      ''       cd - change the working directory'',
                      [],
                      ''SYNOPSIS'',
                      ''       cd [dir]'',
                      [],
                      ''DESCRIPTION'',
                      ''       Change the shell working directory.'',
                      [],
                      ''       Change the current directory to DIR. The default DIR is the value of the'',
                      ''       HOME shell variable.'']
            else result [''No manual entry for '' @ manCommand]))"

definition caseHelp :: commandResult where
  "caseHelp =
     result [''Available commands:'',
             ''File operations: ls, cd, mkdir, touch, cat, rm, cp, mv, pwd, chmod'',
             ''System commands: clear, whoami, su, sudo, adduser, passwd'',
             ''Package management: apt-get, apt'',
             ''Text processing: echo, grep'',
             ''Information: date, uname, df, ps, top, man, help'',
             [],
             ''Use man <command> for more information on specific commands.'']"

subsection \<open>The dispatcher\<close>

text \<open>
  \<open>dispatch\<close> is the body of \<open>processCommandInternal\<close> after \<open>loadFileSystem\<close>: it
  works on the loaded snapshot \<open>fs\<close> and the storage \<open>st\<close>.
\<close>

definition dispatch :: "env \<Rightarrow> string \<Rightarrow> terminalState \<Rightarrow> fileSystem \<Rightarrow> storage \<Rightarrow> outcome" where
  "dispatch e command state fs st =
     (let args = splitWs (trim command);
          cmd = toLowerCase (case args of [] \<Rightarrow> [] | a # rest \<Rightarrow> a)
      in if trim command = [] then (result [], fs, st)
         else if cmd = ''sudo'' then
           (if length args > 1 then
              ((result [''[sudo] password for '' @ currentUser fs @ '':''])
                 \<lparr>r_sudoMode := Some True, r_sudoCommand := Some (join '' '' (drop 1 args))\<rparr>, fs, st)
            else (result [''sudo: command required''], fs, st))
         else if cmd = ''pwd'' then (result [currentPath state], fs, st)
         else if cmd = ''cd'' then caseCd args state fs st
         else if cmd = ''ls'' then caseLs e args state fs st
         else if cmd = ''mkdir'' then caseMkdir e args state fs st
         else if cmd = ''touch'' then caseTouch e args state fs st
         else if cmd = ''cat'' then caseCat args state fs st
         else if cmd = ''echo'' then caseEcho e args state fs st
         else if cmd = ''rm'' then caseRm args state fs st
         else if cmd = ''clear'' then (result [''CLEAR_TERMINAL''], fs, st)
         else if cmd = ''whoami'' then (result [currentUser fs], fs, st)
         else if cmd = ''su'' then caseSu args state fs st
         else if cmd = ''adduser'' then caseAdduser e args state fs st
         else if cmd = ''passwd'' then casePasswd args state fs st
         else if cmd = ''apt'' \<or> cmd = ''apt-get'' then (caseApt args, fs, st)
         else if cmd = ''grep'' then caseGrep args state fs st
         else if cmd = ''date'' then (result [dateString e], fs, st)
         else if cmd = ''uname'' then (caseUname args, fs, st)
         else if cmd = ''df'' then (caseDf, fs, st)
         else if cmd = ''ps'' then (casePs e, fs, st)
         else if cmd = ''top'' then (caseTop e fs, fs, st)
         else if cmd = ''cp'' then caseCp e args state fs st
         else if cmd = ''mv'' then caseMv e args state fs st
         else if cmd = ''chmod'' then caseChmod args state fs st
         else if cmd = ''man'' then (caseMan args, fs, st)
         else if cmd = ''help'' then (caseHelp, fs, st)
         else if cmd = ''exit'' then (result [''Exiting terminal session...''], fs, st)
         else if jsIndex args 1 = Some ''--help'' \<or> jsIndex args 1 = Some ''-h''
         then (result [''Help for '' @ cmd @ '' would be displayed here.''], fs, st)
         else (result [cmd @ '': command not found''], fs, st))"

definition processCommandInternal :: "env \<Rightarrow> string \<Rightarrow> terminalState \<Rightarrow> world \<Rightarrow> commandResult \<times> world" where
  "processCommandInternal e command state w =
     (case dispatch e command state (loadFileSystem w) (storage w) of
        (res, fs1, st1) \<Rightarrow> (res, afterCall w fs1 st1))"

text \<open>
  \<open>processCommand\<close>. The optional parameter \<open>password\<close> is \<open>None\<close> when it is not
  passed; \<open>state.sudoMode && password\<close> holds for a password that is passed and not
  empty. In the sudo branch \<open>fs\<close> is the snapshot loaded first; the buffered command runs
  in \<open>processCommandInternal\<close>, which loads a snapshot of its own, and the last
  \<open>saveFileSystem(fs)\<close> stores the first snapshot again.
\<close>

definition truthy :: "string option \<Rightarrow> bool" where
  "truthy p = (case p of None \<Rightarrow> False | Some s \<Rightarrow> s \<noteq> [])"

definition passwordText :: "string option \<Rightarrow> string" where
  "passwordText p = (case p of None \<Rightarrow> [] | Some s \<Rightarrow> s)"

definition processCommand ::
  "env \<Rightarrow> string \<Rightarrow> terminalState \<Rightarrow> string option \<Rightarrow> world \<Rightarrow> commandResult \<times> world" where
  "processCommand e command state pw w =
     (if sudoMode state \<and> truthy pw then
        (let fs = loadFileSystem w
         in if authenticateUser fs ''root'' (passwordText pw) then
              (let originalUser = currentUser fs;
                   fs1 = fs\<lparr>currentUser := ''root''\<rparr>;
                   w1 = afterCall w fs1 (saveFileSystem fs1 (storage w))
               in case processCommandInternal e (sudoCommand state) state w1 of
                    (res, w2) \<Rightarrow>
                      (let fsNow = (if storage w = None then defaultObject w2 else fs1);
                           fs2 = fsNow\<lparr>currentUser := originalUser\<rparr>
                       in (res\<lparr>r_sudoMode := Some False, r_sudoCommand := Some []\<rparr>,
                           \<lparr>storage = saveFileSystem fs2 (storage w2),
                            defaultObject = (if storage w = None then fs2 else defaultObject w2)\<rparr>)))
            else
              ((result [''Sorry, try again.''])\<lparr>r_sudoMode := Some False, r_sudoCommand := Some []\<rparr>, w))
      else if isPasswordMode state \<and> truthy pw then
        (let fs = loadFileSystem w
         in if authenticateUser fs (tempUser state) (passwordText pw) then
              (case switchUser fs (tempUser state) (storage w) of
                 (switched, fs1, st1) \<Rightarrow>
                   (let home =
                          (case map_of (users fs1) (tempUser state) of
                             None \<Rightarrow> ''/home/'' @ tempUser state
                           | Some u \<Rightarrow> if homeDir u \<noteq> [] then homeDir u else ''/home/'' @ tempUser state)
                    in ((result [''Welcome, '' @ tempUser state @ ''!''])
                          \<lparr>r_newPath := Some home, r_isPasswordMode := Some False, r_tempUser := Some []\<rparr>,
                        afterCall w fs1 st1)))
            else
              ((result [''Authentication failed.''])
                 \<lparr>r_isPasswordMode := Some False, r_tempUser := Some []\<rparr>, w))
      else processCommandInternal e command state w)"

section \<open>The Enter key: Terminal.tsx\<close>

text \<open>\<open>getPrompt\<close> loads the snapshot to print the current user.\<close>

definition getPrompt :: "world \<Rightarrow> string \<Rightarrow> string" where
  "getPrompt w path = currentUser (loadFileSystem w) @ ''@terminal:'' @ path @ ''$''"

text \<open>
  The fields of the state that both \<open>setState\<close> calls of the Enter branch set from the
  result: \<open>result.isPasswordMode || false\<close>, \<open>result.tempUser || ''\<close>,
  \<open>result.sudoMode || false\<close>, \<open>result.sudoCommand || ''\<close> and
  \<open>result.newPath || prev.currentPath\<close>.
\<close>

definition applyResult :: "terminalState \<Rightarrow> commandResult \<Rightarrow> string list \<Rightarrow> terminalState" where
  "applyResult prev res out =
     prev\<lparr>outputLines := out,
          currentInput := [],
          inputPosition := 0,
          isPasswordMode := (case r_isPasswordMode res of None \<Rightarrow> False | Some b \<Rightarrow> b),
          tempUser := (case r_tempUser res of None \<Rightarrow> [] | Some u \<Rightarrow> u),
          sudoMode := (case r_sudoMode res of None \<Rightarrow> False | Some b \<Rightarrow> b),
          sudoCommand := (case r_sudoCommand res of None \<Rightarrow> [] | Some c \<Rightarrow> c),
          currentPath := (case r_newPath res of None \<Rightarrow> currentPath prev
                          | Some p \<Rightarrow> if p = [] then currentPath prev else p)\<rparr>"

text \<open>
  \<open>handleKeyDown\<close> for the Enter key, on the line in \<open>state.currentInput\<close>: the new
  state, the history and the world.
\<close>

definition handleEnter ::
  "env \<Rightarrow> terminalState \<Rightarrow> commandHistory \<Rightarrow> world \<Rightarrow> terminalState \<times> commandHistory \<times> world" where
  "handleEnter e state h w =
     (let command = trim (currentInput state)
      in if isPasswordMode state \<or> sudoMode state then
           (case processCommand e command state (Some command) w of
              (res, w1) \<Rightarrow>
                (applyResult state res
                   (outputLines state @
                    [if isPasswordMode state then replicate (length command) CHR ''*'' else command] @
                    r_output res),
                 h, w1))
         else
           (let h1 = (if command \<noteq> [] then addToHistory h command else h)
            in case processCommand e command state None w of
                 (res, w1) \<Rightarrow>
                   if r_output res = [''CLEAR_TERMINAL''] then (applyResult state res [], h1, w1)
                   else
                     (applyResult state res
                        (outputLines state @ [getPrompt w1 (currentPath state) @ '' '' @ command] @ r_output res),
                      h1, w1)))"

section \<open>Notions used to state the properties\<close>

text \<open>
  The parent of a path, as \<open>createNode\<close> cuts it, exists, is a directory and has no child
  of the path's name.
\<close>

definition parentAccepts :: "fileSystem \<Rightarrow> string \<Rightarrow> bool" where
  "parentAccepts fs path =
     (case getNode fs (parentPathOf path) of
        None \<Rightarrow> False
      | Some parentNode \<Rightarrow>
          ntype parentNode = Directory \<and> map_of (childrenOrEmpty parentNode) (nameOf path) = None)"


text \<open>A sequence of the operations that change the tree, each with the time it runs at.\<close>

datatype fsOp =
    CreateOp string nodeType string
  | DeleteOp string
  | CopyOp string string
  | MoveOp string string
  | ChmodOp string string

fun applyOp :: "fsOp \<Rightarrow> nat \<Rightarrow> fileSystem \<times> storage \<Rightarrow> fileSystem \<times> storage" where
  "applyOp (CreateOp path kind cont) t (fs, st) = snd (createNode fs path kind cont t t st)"
| "applyOp (DeleteOp path) t (fs, st) = snd (deleteNode fs path st)"
| "applyOp (CopyOp src dst) t (fs, st) = snd (copyNode fs src dst t st)"
| "applyOp (MoveOp src dst) t (fs, st) = snd (moveNode fs src dst t st)"
| "applyOp (ChmodOp path mode) t (fs, st) = snd (changePermissions fs path mode st)"

fun applyOps :: "(fsOp \<times> nat) list \<Rightarrow> fileSystem \<times> storage \<Rightarrow> fileSystem \<times> storage" where
  "applyOps [] s = s"
| "applyOps ((op, t) # rest) s = applyOps rest (applyOp op t s)"

text \<open>The fields of a node other than its children and its permissions.\<close>

definition sameOwnFields :: "node \<Rightarrow> node \<Rightarrow> bool" where
  "sameOwnFields a b =
     (ntype a = ntype b \<and> content a = content b \<and> owner a = owner b \<and>
      created a = created b \<and> modified a = modified b)"

text \<open>
  An environment whose clock reads \<open>t\<close>, for running examples; the printed dates are
  empty and the process number drawn is 1000.
\<close>

definition envAt :: "nat \<Rightarrow> env" where
  "envAt t = \<lparr>dateNow = t, dateString = [], timeString = [], formatDate = (\<lambda>m. []), randomPid = 1000\<rparr>"

text \<open>A browser that has stored nothing yet: the module's object is the default snapshot.\<close>

definition freshWorld :: world where
  "freshWorld = \<lparr>storage = None, defaultObject = defaultFileSystem 0\<rparr>"

text \<open>Typing a line and pressing Enter.\<close>

definition enterLine ::
  "env \<Rightarrow> string \<Rightarrow> terminalState \<times> commandHistory \<times> world \<Rightarrow> terminalState \<times> commandHistory \<times> world" where
  "enterLine e line s =
     (case s of (state, h, w) \<Rightarrow> handleEnter e (state\<lparr>currentInput := line\<rparr>) h w)"

text \<open>The node at a path in the stored snapshot; \<open>None\<close> also when nothing is stored.\<close>

definition storedNode :: "world \<Rightarrow> string \<Rightarrow> node option" where
  "storedNode w path = (case storage w of None \<Rightarrow> None | Some fs \<Rightarrow> getNode fs path)"

section \<open>Basic facts\<close>


lemma ntype_set [simp]:
  "ntype (set_children ch n) = ntype n" "ntype (set_permissions p n) = ntype n"
  "ntype (set_content c n) = ntype n" "ntype (set_modified m n) = ntype n"
  by (simp_all add: set_children_def set_permissions_def set_content_def set_modified_def)

lemma children_set [simp]:
  "children (set_children ch n) = ch" "children (set_permissions p n) = children n"
  "children (set_content c n) = children n" "children (set_modified m n) = children n"
  by (simp_all add: set_children_def set_permissions_def set_content_def set_modified_def)

lemma splitOn_notin: "c \<notin> set b \<Longrightarrow> splitOn c b = [b]"
  by (induction b) auto

lemma splitOn_ne [simp]: "splitOn c s \<noteq> []"
  by (induction s) (auto split: list.splits)

lemma splitOn_append: "splitOn c (a @ c # b) = splitOn c a @ splitOn c b"
  by (induction a) (auto split: list.splits)

lemma tw_len: "x \<in> set xs \<Longrightarrow> \<not> P x \<Longrightarrow> length (takeWhile P xs) < length xs"
  by (induction xs) auto

lemma nameOf_rev: "nameOf p = rev (takeWhile (\<lambda>c. c \<noteq> CHR ''/'') (rev p))"
proof (cases "CHR ''/'' \<in> set p")
  case False
  have tw: "takeWhile (\<lambda>c. c \<noteq> CHR ''/'') (rev p) = rev p"
    by (rule takeWhile_eq_all_conv[THEN iffD2]) (use False in auto)
  show ?thesis unfolding tw using False by (simp add: nameOf_def lastIndexOf_def)
next
  case True
  let ?t = "takeWhile (\<lambda>c. c \<noteq> CHR ''/'') (rev p)"
  have le: "length ?t < length p"
    using True tw_len[of "CHR ''/''" "rev p" "\<lambda>c. c \<noteq> CHR ''/''"] by simp
  have "rev p = ?t @ dropWhile (\<lambda>c. c \<noteq> CHR ''/'') (rev p)" by simp
  then have "p = rev (dropWhile (\<lambda>c. c \<noteq> CHR ''/'') (rev p)) @ rev ?t"
    by (metis rev_append rev_rev_ident)
  then have "drop (length p - length ?t) p = rev ?t"
    by (metis append_eq_conv_conj length_append length_rev add_diff_cancel_right')
  moreover have "nat (int (length p) - 1 - int (length ?t) + 1) = length p - length ?t"
    using le by simp
  ultimately show ?thesis using True by (simp add: nameOf_def lastIndexOf_def)
qed

lemma nameOf_no_slash: "CHR ''/'' \<notin> set (nameOf p)"
  unfolding nameOf_rev using set_takeWhileD by fastforce

lemma path_decomp:
  assumes "CHR ''/'' \<in> set p"
  shows "p = take (nat (lastIndexOf p CHR ''/'')) p @ CHR ''/'' # nameOf p"
proof -
  let ?t = "takeWhile (\<lambda>c. c \<noteq> CHR ''/'') (rev p)"
  let ?d = "dropWhile (\<lambda>c. c \<noteq> CHR ''/'') (rev p)"
  have le: "length ?t < length p"
    using assms tw_len[of "CHR ''/''" "rev p" "\<lambda>c. c \<noteq> CHR ''/''"] by simp
  have idx: "nat (lastIndexOf p CHR ''/'') = length p - 1 - length ?t"
    using assms le by (simp add: lastIndexOf_def)
  have dne: "?d \<noteq> []" using assms by (simp add: dropWhile_eq_Nil_conv)
  then have hd: "hd ?d = CHR ''/''" using hd_dropWhile by (metis (mono_tags, lifting))
  then obtain r where d: "?d = CHR ''/'' # r" using dne by (cases ?d) auto
  have "rev p = ?t @ CHR ''/'' # r" using d by (metis takeWhile_dropWhile_id)
  then have p: "p = rev r @ CHR ''/'' # rev ?t"
    by (metis rev_append rev_rev_ident rev.simps(2) append_Cons append_Nil append_assoc)
  have lr: "length (rev r) = length p - 1 - length ?t"
    using arg_cong[OF p, of length] by simp
  have "take (length p - 1 - length ?t) p = rev r"
    using p lr by (metis append_eq_conv_conj)
  then show ?thesis using p idx nameOf_rev by simp
qed


lemma segments_root [simp]: "segments ''/'' = []" "segments [] = []"
  by (simp_all add: segments_def)

lemma getNode_walk: "getNode fs p = walk (root fs) (segments p)"
  by (simp add: getNode_def)

lemma segments_append: "segments (a @ CHR ''/'' # b) = segments a @ segments b"
  by (simp add: segments_def splitOn_append)

lemma segments_name: "CHR ''/'' \<notin> set b \<Longrightarrow> segments b = (if b = [] then [] else [b])"
  by (simp add: segments_def splitOn_notin)

lemma parentPathOf_segments:
  "segments (parentPathOf p) = (if CHR ''/'' \<in> set p then segments (take (nat (lastIndexOf p CHR ''/'')) p) else [])"
proof (cases "CHR ''/'' \<in> set p")
  case False
  then show ?thesis by (simp add: parentPathOf_def lastIndexOf_def)
next
  case True
  show ?thesis
  proof (cases "lastIndexOf p CHR ''/'' \<le> 0")
    case True
    then show ?thesis by (simp add: parentPathOf_def Let_def)
  next
    case False
    then show ?thesis using True by (simp add: parentPathOf_def Let_def)
  qed
qed

lemma segments_split:
  "segments p = segments (parentPathOf p) @ (if nameOf p = [] then [] else [nameOf p])"
proof (cases "CHR ''/'' \<in> set p")
  case False
  then have "nameOf p = p" by (simp add: nameOf_def lastIndexOf_def)
  then show ?thesis using False by (simp add: parentPathOf_segments segments_name)
next
  case True
  have "segments p = segments (take (nat (lastIndexOf p CHR ''/'')) p @ CHR ''/'' # nameOf p)"
    using path_decomp[OF True] by simp
  also have "\<dots> = segments (take (nat (lastIndexOf p CHR ''/'')) p) @ segments (nameOf p)"
    by (rule segments_append)
  finally show ?thesis
    using True by (simp add: parentPathOf_segments segments_name[OF nameOf_no_slash])
qed

lemma walk_append:
  "walk n (a @ b) = (case walk n a of None \<Rightarrow> None | Some m \<Rightarrow> walk m b)"
  by (induction a arbitrary: n) (auto split: option.splits)

lemma walk_updAt_same: "walk (updAt f segs n) segs = map_option f (walk n segs)"
  by (induction segs arbitrary: n) (auto split: option.splits simp: update_conv')

lemma set_children_same [simp]: "set_children (children n) n = n"
  by (cases n) (simp add: set_children_def)

lemma updAt_none: "walk n segs = None \<Longrightarrow> updAt f segs n = n"
proof (induction segs arbitrary: n)
  case Nil
  then show ?case by simp
next
  case (Cons a segs)
  show ?case
  proof (cases "children n")
    case None
    then show ?thesis by simp
  next
    case (Some ch)
    show ?thesis
    proof (cases "map_of ch a")
      case None
      then show ?thesis using Some by simp
    next
      case (Some c)
      then have "walk c segs = None" using Cons.prems \<open>children n = Some ch\<close> by simp
      then have "updAt f segs c = c" by (rule Cons.IH)
      then show ?thesis using Some \<open>children n = Some ch\<close>
        by (simp add: update_triv) (metis set_children_same)
    qed
  qed
qed



lemma permissions_set [simp]:
  "permissions (set_children ch n) = permissions n" "permissions (set_permissions p n) = p"
  "permissions (set_content c n) = permissions n" "permissions (set_modified m n) = permissions n"
  by (simp_all add: set_children_def set_permissions_def set_content_def set_modified_def)

lemma getNode_modifyNode_same:
  "getNode (modifyNode fs path f) path = map_option f (getNode fs path)"
  by (simp add: getNode_walk modifyNode_def walk_updAt_same)

lemma set_children_twice [simp]: "set_children a (set_children b n) = set_children a n"
  by (simp add: set_children_def)

lemma updAt_updAt: "updAt g2 segs (updAt g1 segs n) = updAt (\<lambda>m. g2 (g1 m)) segs n"
  by (induction segs arbitrary: n) (auto split: option.splits simp: update_conv')

lemma modifyNode_set_children_twice [simp]:
  "modifyNode (modifyNode fs p (set_children a)) p (set_children b) = modifyNode fs p (set_children b)"
  by (simp add: modifyNode_def updAt_updAt)

lemma updAt_id: "walk n segs = Some m \<Longrightarrow> g m = m \<Longrightarrow> updAt g segs n = n"
proof (induction segs arbitrary: n)
  case Nil
  then show ?case by simp
next
  case (Cons a segs)
  from Cons.prems(1) obtain ch c where c: "children n = Some ch" "map_of ch a = Some c" "walk c segs = Some m"
    by (auto split: option.splits)
  have "updAt g segs c = c" using Cons.IH[OF c(3) Cons.prems(2)] .
  then show ?case using c by (simp add: update_triv) (metis set_children_same)
qed

text \<open>A change at \<open>Q\<close> that leaves every lookup of a child as it was is not seen from a path that is no prefix of \<open>Q\<close>.\<close>

lemma walk_updAt_keep:
  assumes "\<not> prefix P Q"
    and "\<And>m a. walk n Q = Some m \<Longrightarrow>
           (case children (g m) of None \<Rightarrow> None | Some ch \<Rightarrow> map_of ch a) =
           (case children m of None \<Rightarrow> None | Some ch \<Rightarrow> map_of ch a)"
  shows "walk (updAt g Q n) P = walk n P"
  using assms
proof (induction Q arbitrary: n P)
  case Nil
  then obtain a P' where P: "P = a # P'"
    by (cases P) auto
  have "(case children (g n) of None \<Rightarrow> None | Some ch \<Rightarrow> map_of ch a) =
        (case children n of None \<Rightarrow> None | Some ch \<Rightarrow> map_of ch a)"
    using Nil.prems(2) by simp
  then show ?case
    using P by (auto split: option.splits)
next
  case (Cons s Q)
  then obtain a P' where P: "P = a # P'"
    by (cases P) auto
  show ?case
  proof (cases "a = s")
    case False
    then show ?thesis
      using P by (simp add: update_conv' split: option.splits)
  next
    case True
    have np: "\<not> prefix P' Q"
      using Cons.prems(1) P True by simp
    show ?thesis
    proof (cases "children n")
      case None
      then show ?thesis by simp
    next
      case (Some ch)
      show ?thesis
      proof (cases "map_of ch s")
        case None
        then show ?thesis using Some by simp
      next
        case (Some c)
        have "\<And>m a. walk c Q = Some m \<Longrightarrow>
           (case children (g m) of None \<Rightarrow> None | Some ch \<Rightarrow> map_of ch a) =
           (case children m of None \<Rightarrow> None | Some ch \<Rightarrow> map_of ch a)"
          using Cons.prems(2) Some \<open>children n = Some ch\<close> by simp
        then have "walk (updAt g Q c) P' = walk c P'"
          using np Cons.IH by blast
        then show ?thesis
          using P True Some \<open>children n = Some ch\<close> by (simp add: update_conv')
      qed
    qed
  qed
qed

section \<open>Permissions\<close>

text \<open>
  Claim C2. For every path whose node exists and every mode string: when the mode
  matches the strict pattern of nine characters, \<open>changePermissions\<close> returns false
  and changes neither the snapshot nor the storage; when it does not match, the call
  returns true, the node at the path has the mode as its permissions, word for word, and
  the changed snapshot is stored.
\<close>

theorem changePermissions_inverted:
  "getNode fs path = Some n \<Longrightarrow>
     (strictMode mode \<longrightarrow> changePermissions fs path mode st = (False, fs, st)) \<and>
     (\<not> strictMode mode \<longrightarrow>
        (\<exists>fs'. changePermissions fs path mode st = (True, fs', Some fs') \<and>
           getNode fs' path = Some (set_permissions mode n) \<and>
           permissions (set_permissions mode n) = mode \<and>
           currentUser fs' = currentUser fs \<and> users fs' = users fs))"
  by (simp add: changePermissions_def Let_def saveFileSystem_def getNode_modifyNode_same)
    (simp add: modifyNode_def)

lemma default_tmp:
  "getNode (defaultFileSystem 0) ''/tmp'' = Some (Node Directory None (Some []) ''root'' ''rwxrwxrwx'' 0 0)"
  by code_simp

theorem changePermissions_inverted_witness:
  "strictMode ''rwxr-xr-x'' \<and>
   changePermissions (defaultFileSystem 0) ''/tmp'' ''rwxr-xr-x'' None = (False, defaultFileSystem 0, None) \<and>
   \<not> strictMode ''777'' \<and>
   (\<exists>fs'. changePermissions (defaultFileSystem 0) ''/tmp'' ''777'' None = (True, fs', Some fs') \<and>
      getNode fs' ''/tmp'' = Some (Node Directory None (Some []) ''root'' ''777'' 0 0))"
proof -
  have a: "strictMode ''rwxr-xr-x''" by (simp add: strictMode_def)
  have b: "\<not> strictMode ''777''" by (simp add: strictMode_def)
  have c: "set_permissions ''777'' (Node Directory None (Some []) ''root'' ''rwxrwxrwx'' 0 0) =
      Node Directory None (Some []) ''root'' ''777'' 0 0"
    by (simp add: set_permissions_def)
  show ?thesis
    using a b c changePermissions_inverted[OF default_tmp, of "''rwxr-xr-x''" None]
      changePermissions_inverted[OF default_tmp, of "''777''" None]
    by auto
qed

text \<open>The \<open>chmod\<close> command reports the result: a strict mode is the one it calls invalid.\<close>

lemma caseChmod_inverted:
  assumes "length args \<ge> 3"
    "getNode fs (resolvePath fs (argStr args 2) (currentPath state)) = Some n"
  shows "fst (caseChmod args state fs st) =
           (if strictMode (argStr args 1)
            then result [''chmod: invalid mode: '' @ [CHR 0x27] @ argStr args 1 @ [CHR 0x27]]
            else result [])"
  using assms by (simp add: caseChmod_def changePermissions_def Let_def)

section \<open>Path resolution\<close>

lemma applySegments_append:
  "applySegments cur (a @ b) = applySegments (applySegments cur a) b"
  by (induction a arbitrary: cur) auto

text \<open>
  Claim C3. \<open>resolvePath\<close> is lexical: an argument that starts with a slash is
  returned as it is; \<open>resolve("..", "/") = "/"\<close> and
  \<open>resolve("a/../b", "/x") = "/x/b"\<close>; every other argument that is not a tilde form
  gives a slash followed by the segments that the loop leaves, joined by slashes, where
  a segment \<open>..\<close> removes the last segment (and leaves the empty list of the root as it
  is), a segment \<open>.\<close> changes nothing and any other segment is added at the end. For
  an argument that is not a tilde form the result does not depend on the store, and it
  starts with a slash.
\<close>

theorem resolvePath_lexical:
  "(startsWith path ''/'' \<longrightarrow> resolvePath fs path cur = path) \<and>
   resolvePath fs ''..'' ''/'' = ''/'' \<and>
   resolvePath fs ''a/../b'' ''/x'' = ''/x/b'' \<and>
   (\<not> startsWith path ''/'' \<and> path \<noteq> ''~'' \<and> \<not> startsWith path ''~/'' \<longrightarrow>
      resolvePath fs path cur = ''/'' @ join ''/'' (applySegments (segments cur) (segments path))) \<and>
   (path \<noteq> ''~'' \<and> \<not> startsWith path ''~/'' \<longrightarrow>
      resolvePath fs path cur = resolvePath fs' path cur \<and> startsWith (resolvePath fs path cur) ''/'') \<and>
   applySegments c (ss @ [''..'']) = butlast (applySegments c ss) \<and>
   applySegments [] [''..''] = [] \<and>
   applySegments c (ss @ [''.'']) = applySegments c ss \<and>
   (s \<noteq> ''..'' \<and> s \<noteq> ''.'' \<longrightarrow> applySegments c (ss @ [s]) = applySegments c ss @ [s])"
proof -
  have 1: "startsWith path ''/'' \<longrightarrow> resolvePath fs path cur = path"
    by (simp add: resolvePath_def)
  have 2: "resolvePath fs ''..'' ''/'' = ''/''"
    by (simp add: resolvePath_def startsWith_def segments_def)
  have 3: "resolvePath fs ''a/../b'' ''/x'' = ''/x/b''"
    by (simp add: resolvePath_def startsWith_def segments_def)
  have 4: "\<not> startsWith path ''/'' \<and> path \<noteq> ''~'' \<and> \<not> startsWith path ''~/'' \<longrightarrow>
      resolvePath fs path cur = ''/'' @ join ''/'' (applySegments (segments cur) (segments path))"
    by (simp add: resolvePath_def)
  have 5: "applySegments c (ss @ [''..'']) = butlast (applySegments c ss)"
    by (simp add: applySegments_append)
  have 6: "applySegments c (ss @ [''.'']) = applySegments c ss"
    by (simp add: applySegments_append)
  have 7: "s \<noteq> ''..'' \<and> s \<noteq> ''.'' \<longrightarrow> applySegments c (ss @ [s]) = applySegments c ss @ [s]"
    by (simp add: applySegments_append)
  have 8: "path \<noteq> ''~'' \<and> \<not> startsWith path ''~/'' \<longrightarrow>
      resolvePath fs path cur = resolvePath fs' path cur \<and> startsWith (resolvePath fs path cur) ''/''"
    by (auto simp: resolvePath_def startsWith_def)
  have 9: "applySegments [] [''..''] = []"
    by simp
  show ?thesis
    by (intro conjI) (rule 1 2 3 4 8 5 9 6 7)+
qed

theorem resolvePath_lexical_witness:
  "resolvePath (defaultFileSystem 0) ''/etc/../tmp'' ''/home/ubuntu'' = ''/etc/../tmp'' \<and>
   resolvePath (defaultFileSystem 0) ''../../../x'' ''/home/ubuntu'' = ''/x'' \<and>
   resolvePath (defaultFileSystem 0) ''../../../x'' ''/home/ubuntu'' =
     resolvePath ((defaultFileSystem 0)\<lparr>currentUser := ''root''\<rparr>) ''../../../x'' ''/home/ubuntu'' \<and>
   applySegments [''home''] ([''..'', ''..''] @ [''x'']) = [''x'']"
proof -
  note a = resolvePath_lexical[of "''/etc/../tmp''" "defaultFileSystem 0" "''/home/ubuntu''"
      "(defaultFileSystem 0)\<lparr>currentUser := ''root''\<rparr>" "[''home'']" "[''..'', ''..'']" "''x''"]
  note b = resolvePath_lexical[of "''../../../x''" "defaultFileSystem 0" "''/home/ubuntu''"
      "(defaultFileSystem 0)\<lparr>currentUser := ''root''\<rparr>" "[''home'']" "[''..'', ''..'']" "''x''"]
  have h1: "startsWith ''/etc/../tmp'' ''/''"
    by (simp add: startsWith_def)
  have h2: "\<not> startsWith ''../../../x'' ''/'' \<and> ''../../../x'' \<noteq> ''~'' \<and> \<not> startsWith ''../../../x'' ''~/''"
    by (simp add: startsWith_def)
  have h3: "''x'' \<noteq> ''..'' \<and> ''x'' \<noteq> ''.''"
    by simp
  have r1: "resolvePath (defaultFileSystem 0) ''/etc/../tmp'' ''/home/ubuntu'' = ''/etc/../tmp''"
    using a h1 by blast
  have "resolvePath (defaultFileSystem 0) ''../../../x'' ''/home/ubuntu'' =
      ''/'' @ join ''/'' (applySegments (segments ''/home/ubuntu'') (segments ''../../../x''))"
    using b h2 by blast
  then have r2: "resolvePath (defaultFileSystem 0) ''../../../x'' ''/home/ubuntu'' = ''/x''"
    by (simp add: segments_def)
  have r3: "resolvePath (defaultFileSystem 0) ''../../../x'' ''/home/ubuntu'' =
     resolvePath ((defaultFileSystem 0)\<lparr>currentUser := ''root''\<rparr>) ''../../../x'' ''/home/ubuntu''"
    using b h2 by blast
  have "applySegments [''home''] ([''..'', ''..''] @ [''x'']) = applySegments [''home''] [''..'', ''..''] @ [''x'']"
    using b h3 by blast
  then have r4: "applySegments [''home''] ([''..'', ''..''] @ [''x'']) = [''x'']"
    by simp
  show ?thesis
    by (intro conjI) (rule r1 r2 r3 r4)+
qed

section \<open>History\<close>

lemma jsIndex_last: "xs \<noteq> [] \<Longrightarrow> jsIndex xs (int (length xs) - 1) = Some (last xs)"
  by (cases xs rule: rev_cases) (auto simp: jsIndex_def nth_append)

text \<open>
  Claim C9. The history only grows at its end: \<open>addToHistory\<close> appends the command
  unless it is blank or equal to the last entry, and puts the cursor one past the end;
  \<open>getPreviousCommand\<close> and \<open>getNextCommand\<close> never change the entries. "Previous"
  moves the cursor down by one when it is above 0 (and entries exist) and leaves it
  otherwise, so a cursor that is not below 0 never goes below 0. "Next" moves the cursor
  up by one while it is before the last entry, and otherwise puts it one past the last
  entry, which is where it returns the empty string. (The cursor of the initial, empty
  history is \<open>-1\<close>; "previous" returns the empty string there and leaves it.)
\<close>

theorem history_cursor:
  "commands (addToHistory h c) =
     (if trim c \<noteq> [] \<and> (commands h = [] \<or> last (commands h) \<noteq> c) then commands h @ [c]
      else commands h) \<and>
   prefix (commands h) (commands (addToHistory h c)) \<and>
   position (addToHistory h c) = int (length (commands (addToHistory h c))) \<and>
   commands (snd (getPreviousCommand h)) = commands h \<and>
   commands (snd (getNextCommand h)) = commands h \<and>
   position (snd (getPreviousCommand h)) =
     (if commands h \<noteq> [] \<and> position h > 0 then position h - 1 else position h) \<and>
   (0 \<le> position h \<longrightarrow> 0 \<le> position (snd (getPreviousCommand h))) \<and>
   position (snd (getNextCommand h)) =
     (if position h < int (length (commands h)) - 1 then position h + 1
      else int (length (commands h))) \<and>
   position (snd (getNextCommand h)) \<le> int (length (commands h)) \<and>
   (position (snd (getNextCommand h)) = int (length (commands h)) \<longrightarrow>
      fst (getNextCommand h) = Some []) \<and>
   getPreviousCommand initialCommandHistory = ([], initialCommandHistory)"
proof -
  have add: "commands (addToHistory h c) =
     (if trim c \<noteq> [] \<and> (commands h = [] \<or> last (commands h) \<noteq> c) then commands h @ [c]
      else commands h)"
    by (cases "commands h = []") (simp_all add: addToHistory_def Let_def jsIndex_last)
  have pre: "prefix (commands h) (commands (addToHistory h c))"
    unfolding add by simp
  have pos: "position (addToHistory h c) = int (length (commands (addToHistory h c)))"
    by (simp add: addToHistory_def Let_def)
  have prevc: "commands (snd (getPreviousCommand h)) = commands h"
    by (simp add: getPreviousCommand_def Let_def split: option.splits)
  have nextc: "commands (snd (getNextCommand h)) = commands h"
    by (simp add: getNextCommand_def Let_def)
  have prevp: "position (snd (getPreviousCommand h)) =
     (if commands h \<noteq> [] \<and> position h > 0 then position h - 1 else position h)"
    by (simp add: getPreviousCommand_def Let_def split: option.splits)
  have nextp: "position (snd (getNextCommand h)) =
     (if position h < int (length (commands h)) - 1 then position h + 1
      else int (length (commands h)))"
    by (simp add: getNextCommand_def Let_def)
  have nexte: "position (snd (getNextCommand h)) = int (length (commands h)) \<longrightarrow>
      fst (getNextCommand h) = Some []"
    by (simp add: getNextCommand_def Let_def)
  have init: "getPreviousCommand initialCommandHistory = ([], initialCommandHistory)"
    by (simp add: getPreviousCommand_def initialCommandHistory_def)
  show ?thesis
    using add pre pos prevc nextc prevp nextp nexte init by simp
qed

theorem history_cursor_witness:
  "commands (addToHistory \<lparr>commands = [''ls'', ''pwd''], position = 2\<rparr> ''pwd'') = [''ls'', ''pwd''] \<and>
   commands (addToHistory \<lparr>commands = [''ls'', ''pwd''], position = 2\<rparr> ''ls'') = [''ls'', ''pwd'', ''ls''] \<and>
   position (snd (getPreviousCommand \<lparr>commands = [''ls'', ''pwd''], position = 0\<rparr>)) = 0 \<and>
   position (snd (getNextCommand \<lparr>commands = [''ls'', ''pwd''], position = 1\<rparr>)) = 2 \<and>
   fst (getNextCommand \<lparr>commands = [''ls'', ''pwd''], position = 1\<rparr>) = Some []"
  using history_cursor[of "\<lparr>commands = [''ls'', ''pwd''], position = 2\<rparr>" "''pwd''"]
    history_cursor[of "\<lparr>commands = [''ls'', ''pwd''], position = 2\<rparr>" "''ls''"]
    history_cursor[of "\<lparr>commands = [''ls'', ''pwd''], position = 0\<rparr>" "''ls''"]
    history_cursor[of "\<lparr>commands = [''ls'', ''pwd''], position = 1\<rparr>" "''ls''"]
  by (simp add: trim_def isSpace_def)

section \<open>Creating nodes\<close>


lemma getNode_child:
  assumes "nameOf path \<noteq> []"
  shows "getNode fs path =
     (case getNode fs (parentPathOf path) of
        None \<Rightarrow> None
      | Some p \<Rightarrow> (case children p of None \<Rightarrow> None | Some ch \<Rightarrow> map_of ch (nameOf path)))"
  using assms
  by (simp add: getNode_walk segments_split[of path] walk_append split: option.splits)

lemma createNode_result:
  assumes "nameOf path \<noteq> []" "nameOf path \<notin> set objectPrototypeNames" "parentAccepts fs path"
  shows "\<exists>fs'. createNode fs path kind cont tc tm st = (True, fs', Some fs') \<and>
           getNode fs' path = Some (newNode kind cont (currentUser fs) tc tm) \<and>
           \<not> parentAccepts fs' path \<and> currentUser fs' = currentUser fs \<and> users fs' = users fs"
proof -
  from assms(3) obtain p where p: "getNode fs (parentPathOf path) = Some p"
    "ntype p = Directory" "map_of (childrenOrEmpty p) (nameOf path) = None"
    by (auto simp: parentAccepts_def split: option.splits)
  let ?nn = "newNode kind cont (currentUser fs) tc tm"
  let ?fs = "modifyNode fs (parentPathOf path)
     (set_children (Some (AList.update (nameOf path) ?nn (childrenOrEmpty p))))"
  have c: "createNode fs path kind cont tc tm st = (True, ?fs, Some ?fs)"
    using assms(1,2) p by (simp add: createNode_def truthyChild_def Let_def saveFileSystem_def)
  have g: "getNode ?fs (parentPathOf path) =
     Some (set_children (Some (AList.update (nameOf path) ?nn (childrenOrEmpty p))) p)"
    using p(1) by (simp add: getNode_modifyNode_same)
  have "getNode ?fs path = Some ?nn"
    using g by (simp add: getNode_child[OF assms(1)] update_conv')
  moreover have "\<not> parentAccepts ?fs path"
    using g by (simp add: parentAccepts_def childrenOrEmpty_def update_conv')
  moreover have "currentUser ?fs = currentUser fs \<and> users ?fs = users fs"
    by (simp add: modifyNode_def)
  ultimately show ?thesis using c by blast
qed




section \<open>Copying nodes\<close>

lemma sourceNameMatch_nameOf:
  "sourceNameMatch p = (if nameOf p = [] then None else Some (nameOf p))"
  by (simp add: sourceNameMatch_def nameOf_rev Let_def)

lemma cloneNode_fields [simp]:
  "ntype (cloneNode t n) = ntype n" "content (cloneNode t n) = content n"
  "owner (cloneNode t n) = owner n" "permissions (cloneNode t n) = permissions n"
  "created (cloneNode t n) = created n" "modified (cloneNode t n) = t"
  "children (cloneNode t n) = map_option (map (map_prod id (cloneNode t))) (children n)"
  by (cases n; simp)+

lemma map_of_map_prod: "map_of (map (map_prod id f) ch) k = map_option f (map_of ch k)"
  by (induction ch) auto

lemma walk_cloneNode: "walk (cloneNode t n) segs = map_option (cloneNode t) (walk n segs)"
  by (induction segs arbitrary: n) (auto simp: map_of_map_prod split: option.splits)

lemma cloneNode_names: "map fst (childrenOrEmpty (cloneNode t m)) = map fst (childrenOrEmpty m)"
  by (simp add: childrenOrEmpty_def split: option.splits)

lemma copyNode_at_target:
  assumes "getNode fs src = Some n" "copyTarget fs src dst = Some (dir, name)"
    "getNode fs dir = Some d" "ntype d = Directory"
  shows "\<exists>fs' n'. copyNode fs src dst t st = (True, fs', Some fs') \<and>
           fs' = modifyNode fs dir (set_children (Some (AList.update name (cloneNode t n') (childrenOrEmpty d)))) \<and>
           walk (root fs') (segments dir @ [name]) = Some (cloneNode t n') \<and>
           (children d \<noteq> None \<or> \<not> prefix (segments src) (segments dir) \<longrightarrow> n' = n)"
proof -
  let ?fs1 = "modifyNode fs dir (set_children (Some (childrenOrEmpty d)))"
  let ?n' = "case getNode ?fs1 src of None \<Rightarrow> n | Some m \<Rightarrow> m"
  let ?fs = "modifyNode fs dir (set_children (Some (AList.update name (cloneNode t ?n') (childrenOrEmpty d))))"
  have c: "copyNode fs src dst t st = (True, ?fs, Some ?fs)"
    using assms by (simp add: copyNode_def Let_def saveFileSystem_def)
  have "walk (root ?fs) (segments dir) =
      Some (set_children (Some (AList.update name (cloneNode t ?n') (childrenOrEmpty d))) d)"
    using assms(3) getNode_modifyNode_same[of fs dir] by (simp add: getNode_walk)
  then have w: "walk (root ?fs) (segments dir @ [name]) = Some (cloneNode t ?n')"
    by (simp add: walk_append update_conv')
  have same: "?n' = n" if "children d \<noteq> None \<or> \<not> prefix (segments src) (segments dir)"
  proof -
    have "walk (root ?fs1) (segments src) = walk (root fs) (segments src)"
    proof (cases "children d \<noteq> None")
      case True
      then have "set_children (Some (childrenOrEmpty d)) d = d"
        by (auto simp: childrenOrEmpty_def) (metis set_children_same)
      then have "updAt (set_children (Some (childrenOrEmpty d))) (segments dir) (root fs) = root fs"
        using assms(3) by (intro updAt_id[of _ _ d]) (simp_all add: getNode_walk)
      then show ?thesis by (simp add: modifyNode_def)
    next
      case False
      then have np: "\<not> prefix (segments src) (segments dir)" using that by simp
      have "walk (updAt (set_children (Some (childrenOrEmpty d))) (segments dir) (root fs)) (segments src)
            = walk (root fs) (segments src)"
        using np assms(3)
        by (intro walk_updAt_keep) (auto simp: getNode_walk childrenOrEmpty_def split: option.splits)
      then show ?thesis by (simp add: modifyNode_def)
    qed
    then show ?thesis using assms(1) by (simp add: getNode_walk)
  qed
  show ?thesis using c w same by blast
qed

text \<open>
  Claim C6, amended. For every source path whose node exists and whose name after the
  last slash is not empty, and every destination path that resolves to an existing
  directory, \<open>copyNode\<close> succeeds, stores the snapshot, and puts at the destination
  followed by a slash and the source's name the clone of the source node as it is when
  cloned: the node the source path resolved to before the call, whenever the destination
  directory has its children mapping or the source path is no prefix of the destination
  path. The clone is deep: at every relative path it holds the clone of the node the source holds there
  (and nothing where the source holds nothing), and the clone of a node has the time of
  the call as \<open>modified\<close> and the node's own \<open>created\<close>, content, type, owner,
  permissions and child names.
\<close>

theorem copyNode_into_directory:
  assumes "getNode fs src = Some n" "getNode fs dst = Some d" "ntype d = Directory"
    "nameOf src \<noteq> []"
  shows "\<exists>fs' n'. copyNode fs src dst t st = (True, fs', Some fs') \<and>
           getNode fs' (dst @ ''/'' @ nameOf src) = Some (cloneNode t n') \<and>
           (children d \<noteq> None \<or> \<not> prefix (segments src) (segments dst) \<longrightarrow> n' = n) \<and>
           (\<forall>segs. walk (cloneNode t n') segs = map_option (cloneNode t) (walk n' segs)) \<and>
           (\<forall>m. modified (cloneNode t m) = t \<and> created (cloneNode t m) = created m \<and>
                content (cloneNode t m) = content m \<and> ntype (cloneNode t m) = ntype m \<and>
                owner (cloneNode t m) = owner m \<and> permissions (cloneNode t m) = permissions m \<and>
                map fst (childrenOrEmpty (cloneNode t m)) = map fst (childrenOrEmpty m))"
proof -
  have tg: "copyTarget fs src dst = Some (dst, nameOf src)"
    using assms by (simp add: copyTarget_def sourceNameMatch_nameOf)
  from copyNode_at_target[OF assms(1) tg assms(2,3), of t st]
  obtain fs' n' where fs': "copyNode fs src dst t st = (True, fs', Some fs')"
    "walk (root fs') (segments dst @ [nameOf src]) = Some (cloneNode t n')"
    "children d \<noteq> None \<or> \<not> prefix (segments src) (segments dst) \<longrightarrow> n' = n"
    by blast
  have "segments (dst @ ''/'' @ nameOf src) = segments dst @ [nameOf src]"
    using assms(4) segments_append[of dst "nameOf src"] segments_name[OF nameOf_no_slash, of src]
    by simp
  then have g: "getNode fs' (dst @ ''/'' @ nameOf src) = Some (cloneNode t n')"
    using fs'(2) by (simp add: getNode_walk)
  have "(\<forall>segs. walk (cloneNode t n') segs = map_option (cloneNode t) (walk n' segs)) \<and>
           (\<forall>m. modified (cloneNode t m) = t \<and> created (cloneNode t m) = created m \<and>
                content (cloneNode t m) = content m \<and> ntype (cloneNode t m) = ntype m \<and>
                owner (cloneNode t m) = owner m \<and> permissions (cloneNode t m) = permissions m \<and>
                map fst (childrenOrEmpty (cloneNode t m)) = map fst (childrenOrEmpty m))"
    by (simp add: walk_cloneNode cloneNode_names)
  then show ?thesis
    using fs'(1,3) g by blast
qed

theorem copyNode_into_directory_witness:
  "\<exists>fs'. copyNode (defaultFileSystem 0) ''/etc/hosts'' ''/tmp'' 9 None = (True, fs', Some fs') \<and>
     getNode fs' ''/tmp/hosts'' =
       Some (Node File (Some (''127.0.0.1 localhost'' @ [CHR 0x0A] @ ''127.0.1.1 ubuntu-terminal''))
               None ''root'' ''rw-r--r--'' 0 9)"
proof -
  have 1: "getNode (defaultFileSystem 0) ''/etc/hosts'' =
     Some (Node File (Some (''127.0.0.1 localhost'' @ [CHR 0x0A] @ ''127.0.1.1 ubuntu-terminal''))
               None ''root'' ''rw-r--r--'' 0 0)"
    by code_simp
  have 2: "getNode (defaultFileSystem 0) ''/tmp'' = Some (Node Directory None (Some []) ''root'' ''rwxrwxrwx'' 0 0)"
    by code_simp
  have 3: "nameOf ''/etc/hosts'' = ''hosts''"
    by code_simp
  have 4: "ntype (Node Directory None (Some []) ''root'' ''rwxrwxrwx'' 0 0) = Directory"
    "children (Node Directory None (Some []) ''root'' ''rwxrwxrwx'' 0 0) \<noteq> None"
    "nameOf ''/etc/hosts'' \<noteq> []"
    using 3 by simp_all
  from copyNode_into_directory[OF 1 2 4(1,3), of 9 None]
  obtain fs' n' where r:
    "copyNode (defaultFileSystem 0) ''/etc/hosts'' ''/tmp'' 9 None = (True, fs', Some fs')"
    "getNode fs' (''/tmp'' @ ''/'' @ nameOf ''/etc/hosts'') = Some (cloneNode 9 n')"
    "n' = Node File (Some (''127.0.0.1 localhost'' @ [CHR 0x0A] @ ''127.0.1.1 ubuntu-terminal''))
               None ''root'' ''rw-r--r--'' 0 0"
    using 4(2) by blast
  show ?thesis
    using r 3 by simp
qed

text \<open>
  Claim C6 as stated fails for a source path that ends in a slash: \<open>/etc/\<close> resolves
  to a node and \<open>/tmp\<close> is a directory, yet \<open>copyNode\<close> returns false, because the
  pattern for the source's name finds nothing after the last slash.
\<close>

theorem copyNode_into_directory_counterexample:
  "getNode (defaultFileSystem 0) ''/etc/'' \<noteq> None \<and>
   map_option ntype (getNode (defaultFileSystem 0) ''/tmp'') = Some Directory \<and>
   \<not> fst (copyNode (defaultFileSystem 0) ''/etc/'' ''/tmp'' 1 None)"
  by code_simp



section \<open>Moving nodes\<close>




lemma moveNode_unfold:
  "moveNode fs src dst t st =
     (if fst (copyNode fs src dst t st)
      then deleteNode (fst (snd (copyNode fs src dst t st))) src (snd (snd (copyNode fs src dst t st)))
      else (False, snd (copyNode fs src dst t st)))"
  by (cases "copyNode fs src dst t st") (auto simp: moveNode_def)








section \<open>The root\<close>

lemma sameOwnFields_refl [simp]: "sameOwnFields n n"
  by (simp add: sameOwnFields_def)

lemma sameOwnFields_trans: "sameOwnFields a b \<Longrightarrow> sameOwnFields b c \<Longrightarrow> sameOwnFields a c"
  by (simp add: sameOwnFields_def)

lemma sameOwnFields_set [simp]:
  "sameOwnFields (set_children ch n) n" "sameOwnFields (set_permissions p n) n"
  by (simp_all add: sameOwnFields_def set_children_def set_permissions_def)

lemma updAt_own:
  assumes "\<And>m. sameOwnFields (f m) m"
  shows "sameOwnFields (updAt f segs n) n"
  using assms by (cases segs) (auto split: option.splits)

lemma modifyNode_own:
  assumes "\<And>m. sameOwnFields (f m) m"
  shows "sameOwnFields (root (modifyNode fs path f)) (root fs)"
  using updAt_own[OF assms] by (simp add: modifyNode_def)

lemma createNode_own: "sameOwnFields (root (fst (snd (createNode fs path kind cont tc tm st)))) (root fs)"
  by (auto simp: createNode_def Let_def modifyNode_own split: option.splits)

lemma deleteNode_own: "sameOwnFields (root (fst (snd (deleteNode fs path st)))) (root fs)"
  by (auto simp: deleteNode_def Let_def modifyNode_own split: option.splits)

lemma copyNode_own: "sameOwnFields (root (fst (snd (copyNode fs src dst t st)))) (root fs)"
  by (auto simp: copyNode_def Let_def modifyNode_own split: option.splits)

lemma moveNode_own: "sameOwnFields (root (fst (snd (moveNode fs src dst t st)))) (root fs)"
  using copyNode_own[of fs src dst t st]
    deleteNode_own[of "fst (snd (copyNode fs src dst t st))" src "snd (snd (copyNode fs src dst t st))"]
  by (auto simp: moveNode_unfold intro: sameOwnFields_trans)

lemma changePermissions_own: "sameOwnFields (root (fst (snd (changePermissions fs path mode st)))) (root fs)"
  by (auto simp: changePermissions_def Let_def modifyNode_own split: option.splits)

lemma applyOp_own: "sameOwnFields (root (fst (applyOp op t s))) (root (fst s))"
  by (cases s; cases op)
    (simp_all add: createNode_own deleteNode_own copyNode_own moveNode_own changePermissions_own)

lemma applyOps_own: "sameOwnFields (root (fst (applyOps ops s))) (root (fst s))"
proof (induction ops arbitrary: s)
  case Nil
  then show ?case by simp
next
  case (Cons a ops)
  obtain op t where a: "a = (op, t)" by (cases a)
  show ?case
    using Cons.IH[of "applyOp op t s"] applyOp_own[of op t s] a
    by (auto intro: sameOwnFields_trans)
qed

text \<open>
  Claim C10. \<open>deleteNode\<close> of \<open>/\<close> returns false and changes nothing; \<open>createNode\<close>
  with a path whose name after the last slash is empty returns false and changes
  nothing; and after any sequence of \<open>createNode\<close>, \<open>deleteNode\<close>, \<open>copyNode\<close>,
  \<open>moveNode\<close> and \<open>changePermissions\<close>, \<open>getNode\<close> of \<open>/\<close> returns the root of the
  snapshot, which has the type, content, owner and timestamps of the root before (only
  its children and permissions can differ): a root directory stays the root directory.
\<close>

theorem root_never_deleted:
  "deleteNode fs ''/'' st = (False, fs, st) \<and>
   (nameOf path = [] \<longrightarrow> createNode fs path kind cont tc tm st = (False, fs, st)) \<and>
   getNode (fst (applyOps ops (fs, st))) ''/'' = Some (root (fst (applyOps ops (fs, st)))) \<and>
   sameOwnFields (root (fst (applyOps ops (fs, st)))) (root fs) \<and>
   (ntype (root fs) = Directory \<longrightarrow>
      (\<exists>r. getNode (fst (applyOps ops (fs, st))) ''/'' = Some r \<and> ntype r = Directory \<and>
           owner r = owner (root fs) \<and> created r = created (root fs)))"
proof -
  have 1: "deleteNode fs ''/'' st = (False, fs, st)"
    by (simp add: deleteNode_def nameOf_def lastIndexOf_def)
  have 2: "nameOf path = [] \<longrightarrow> createNode fs path kind cont tc tm st = (False, fs, st)"
    by (simp add: createNode_def)
  have 3: "getNode (fst (applyOps ops (fs, st))) ''/'' = Some (root (fst (applyOps ops (fs, st))))"
    by (simp add: getNode_def)
  have 4: "sameOwnFields (root (fst (applyOps ops (fs, st)))) (root fs)"
    using applyOps_own[of ops "(fs, st)"] by simp
  show ?thesis
    using 1 2 3 4 by (auto simp: sameOwnFields_def)
qed

theorem root_never_deleted_witness:
  "createNode (defaultFileSystem 0) ''/tmp/'' Directory [] 4 4 None = (False, defaultFileSystem 0, None) \<and>
   (\<exists>r. getNode (fst (applyOps
            [(DeleteOp ''/'', 1), (CopyOp ''/'' ''/x'', 2), (MoveOp ''/'' ''/y'', 3),
             (ChmodOp ''/'' ''700'', 4), (CreateOp ''/'' File ''text'', 5), (DeleteOp ''/home'', 6)]
            (defaultFileSystem 0, None))) ''/'' = Some r \<and>
      ntype r = Directory \<and> owner r = ''root'' \<and> created r = 0)"
proof -
  let ?ops = "[(DeleteOp ''/'', 1), (CopyOp ''/'' ''/x'', 2), (MoveOp ''/'' ''/y'', 3),
          (ChmodOp ''/'' ''700'', 4), (CreateOp ''/'' File ''text'', 5), (DeleteOp ''/home'', 6)]"
  have a: "nameOf ''/tmp/'' = []" by (simp add: nameOf_def lastIndexOf_def)
  have b1: "ntype (root (defaultFileSystem 0)) = Directory"
    by (simp add: defaultFileSystem_def defaultRoot_def)
  have b2: "owner (root (defaultFileSystem 0)) = ''root''"
    by (simp add: defaultFileSystem_def defaultRoot_def)
  have b3: "created (root (defaultFileSystem 0)) = 0"
    by (simp add: defaultFileSystem_def defaultRoot_def)
  note t = root_never_deleted[of "defaultFileSystem 0" None "''/tmp/''" Directory "[]" 4 4 ?ops]
  have c: "createNode (defaultFileSystem 0) ''/tmp/'' Directory [] 4 4 None = (False, defaultFileSystem 0, None)"
    using t a by blast
  have "\<exists>r. getNode (fst (applyOps ?ops (defaultFileSystem 0, None))) ''/'' = Some r \<and>
      ntype r = Directory \<and> owner r = owner (root (defaultFileSystem 0)) \<and>
      created r = created (root (defaultFileSystem 0))"
    using t b1 by blast
  then have "\<exists>r. getNode (fst (applyOps ?ops (defaultFileSystem 0, None))) ''/'' = Some r \<and>
      ntype r = Directory \<and> owner r = ''root'' \<and> created r = 0"
    unfolding b2 b3 .
  then show ?thesis using c by blast
qed



section \<open>The sudo password\<close>

text \<open>
  Claim C4, amended. In sudo mode, when the line submitted as the password is not the
  root password, the world (the storage and the module's snapshot, so also the current
  user) stays as it was and the buffered command does not run; \<open>processCommand\<close>
  returns the one line \<open>Sorry, try again.\<close> with \<open>sudoMode\<close> false and \<open>sudoCommand\<close>
  empty when the line is not empty, and no line when it is empty; and the Enter key
  leaves the terminal in normal mode with the buffered command cleared, the history as
  it was, and after the echoed line that output.
\<close>

theorem sudo_wrong_password:
  "sudoMode state \<Longrightarrow> \<not> authenticateUser (loadFileSystem w) ''root'' line \<Longrightarrow>
     processCommand e line state (Some line) w =
       (if line = [] then result []
        else (result [''Sorry, try again.''])\<lparr>r_sudoMode := Some False, r_sudoCommand := Some []\<rparr>, w) \<and>
     (line \<noteq> [] \<longrightarrow>
        processCommand e command state (Some line) w =
          ((result [''Sorry, try again.''])\<lparr>r_sudoMode := Some False, r_sudoCommand := Some []\<rparr>, w)) \<and>
     (trim (currentInput state) = line \<longrightarrow>
        handleEnter e state h w =
          (state\<lparr>outputLines := outputLines state @
                     [if isPasswordMode state then replicate (length line) CHR ''*'' else line] @
                     (if line = [] then [] else [''Sorry, try again.'']),
                 currentInput := [], inputPosition := 0, isPasswordMode := False, tempUser := [],
                 sudoMode := False, sudoCommand := []\<rparr>, h, w))"
proof -
  assume a: "sudoMode state" "\<not> authenticateUser (loadFileSystem w) ''root'' line"
  have same: "afterCall w (loadFileSystem w) (storage w) = w"
    by (cases "storage w") (simp_all add: afterCall_def loadFileSystem_def)
  have p: "\<And>c. line \<noteq> [] \<Longrightarrow> processCommand e c state (Some line) w =
       ((result [''Sorry, try again.''])\<lparr>r_sudoMode := Some False, r_sudoCommand := Some []\<rparr>, w)"
    using a by (simp add: processCommand_def truthy_def passwordText_def Let_def)
  have q: "processCommand e [] state (Some []) w = (result [], w)"
    by (simp add: processCommand_def truthy_def processCommandInternal_def dispatch_def trim_def same)
  have l: "processCommand e line state (Some line) w =
       (if line = [] then result []
        else (result [''Sorry, try again.''])\<lparr>r_sudoMode := Some False, r_sudoCommand := Some []\<rparr>, w)"
    using p q by (cases "line = []") simp_all
  have "handleEnter e state h w =
          (state\<lparr>outputLines := outputLines state @
                     [if isPasswordMode state then replicate (length line) CHR ''*'' else line] @
                     (if line = [] then [] else [''Sorry, try again.'']),
                 currentInput := [], inputPosition := 0, isPasswordMode := False, tempUser := [],
                 sudoMode := False, sudoCommand := []\<rparr>, h, w)"
    if "trim (currentInput state) = line"
    using a(1) that by (cases "line = []") (simp_all add: handleEnter_def Let_def p q applyResult_def result_def)
  then show ?thesis using p l by blast
qed

theorem sudo_wrong_password_witness:
  "processCommand (envAt 1) ''bad''
      (initialTerminalState\<lparr>currentInput := ''bad'', sudoMode := True, sudoCommand := ''rm -r /etc''\<rparr>)
      (Some ''bad'') freshWorld =
     ((result [''Sorry, try again.''])\<lparr>r_sudoMode := Some False, r_sudoCommand := Some []\<rparr>, freshWorld) \<and>
   handleEnter (envAt 1)
      (initialTerminalState\<lparr>currentInput := ''bad'', sudoMode := True, sudoCommand := ''rm -r /etc''\<rparr>)
      initialCommandHistory freshWorld =
     (initialTerminalState\<lparr>outputLines := outputLines initialTerminalState @ [''bad'', ''Sorry, try again.'']\<rparr>,
      initialCommandHistory, freshWorld) \<and>
   handleEnter (envAt 1)
      (initialTerminalState\<lparr>sudoMode := True, sudoCommand := ''rm -r /etc''\<rparr>)
      initialCommandHistory freshWorld =
     (initialTerminalState\<lparr>outputLines := outputLines initialTerminalState @ [[]]\<rparr>,
      initialCommandHistory, freshWorld)"
proof -
  let ?s = "initialTerminalState\<lparr>currentInput := ''bad'', sudoMode := True, sudoCommand := ''rm -r /etc''\<rparr>"
  let ?z = "initialTerminalState\<lparr>sudoMode := True, sudoCommand := ''rm -r /etc''\<rparr>"
  have 1: "sudoMode ?s" "sudoMode ?z" by simp_all
  have 2: "''bad'' \<noteq> []" by simp
  have 3: "\<not> authenticateUser (loadFileSystem freshWorld) ''root'' ''bad''"
    "\<not> authenticateUser (loadFileSystem freshWorld) ''root'' []"
    by (simp_all add: authenticateUser_def loadFileSystem_def freshWorld_def defaultFileSystem_def)
  have 4: "trim (currentInput ?s) = ''bad''"
    by (simp add: trim_def isSpace_def)
  have 5: "trim (currentInput ?z) = []"
    by (simp add: trim_def initialTerminalState_def)
  note t = sudo_wrong_password[OF 1(1) 3(1), of "envAt 1" "''bad''" initialCommandHistory]
  note t0 = sudo_wrong_password[OF 1(2) 3(2), of "envAt 1" "[]" initialCommandHistory]
  have a: "processCommand (envAt 1) ''bad'' ?s (Some ''bad'') freshWorld =
     ((result [''Sorry, try again.''])\<lparr>r_sudoMode := Some False, r_sudoCommand := Some []\<rparr>, freshWorld)"
    using t 2 by blast
  have "handleEnter (envAt 1) ?s initialCommandHistory freshWorld =
          (?s\<lparr>outputLines := outputLines ?s @
                     [if isPasswordMode ?s then replicate (length ''bad'') CHR ''*'' else ''bad''] @
                     (if ''bad'' = [] then [] else [''Sorry, try again.'']),
                 currentInput := [], inputPosition := 0, isPasswordMode := False, tempUser := [],
                 sudoMode := False, sudoCommand := []\<rparr>, initialCommandHistory, freshWorld)"
    using t 4 by blast
  then have b: "handleEnter (envAt 1) ?s initialCommandHistory freshWorld =
     (initialTerminalState\<lparr>outputLines := outputLines initialTerminalState @ [''bad'', ''Sorry, try again.'']\<rparr>,
      initialCommandHistory, freshWorld)"
    by (simp add: initialTerminalState_def)
  have "handleEnter (envAt 1) ?z initialCommandHistory freshWorld =
          (?z\<lparr>outputLines := outputLines ?z @
                     [if isPasswordMode ?z then replicate (length ([] :: string)) CHR ''*'' else []] @
                     (if ([] :: string) = [] then [] else [''Sorry, try again.'']),
                 currentInput := [], inputPosition := 0, isPasswordMode := False, tempUser := [],
                 sudoMode := False, sudoCommand := []\<rparr>, initialCommandHistory, freshWorld)"
    using t0 5 by blast
  then have c: "handleEnter (envAt 1) ?z initialCommandHistory freshWorld =
     (initialTerminalState\<lparr>outputLines := outputLines initialTerminalState @ [[]]\<rparr>,
      initialCommandHistory, freshWorld)"
    by (simp add: initialTerminalState_def)
  show ?thesis
    by (intro conjI) (rule a b c)+
qed

text \<open>
  Claim C4 as stated fails for the empty line, in what is printed only. It is not the
  root password, but \<open>state.sudoMode && password\<close> is false for an empty password, so
  the line is run as an empty command: nothing is printed after the echoed line, and
  \<open>Sorry, try again.\<close> does not appear.
\<close>

theorem sudo_empty_line_counterexample:
  "sudoMode (initialTerminalState\<lparr>sudoMode := True, sudoCommand := ''rm -r /etc''\<rparr>) \<and>
   \<not> authenticateUser (loadFileSystem freshWorld) ''root'' [] \<and>
   r_output (fst (processCommand (envAt 1) []
      (initialTerminalState\<lparr>sudoMode := True, sudoCommand := ''rm -r /etc''\<rparr>) (Some []) freshWorld)) = [] \<and>
   outputLines (fst (enterLine (envAt 1) []
      (initialTerminalState\<lparr>sudoMode := True, sudoCommand := ''rm -r /etc''\<rparr>, initialCommandHistory, freshWorld)))
     = outputLines initialTerminalState @ [[]]"
  by code_simp

text \<open>
  Claim C1 does not hold of the code. As \<open>ubuntu\<close> in a browser that has stored
  nothing, the line \<open>sudo rm -r /etc\<close> asks for the password and buffers \<open>rm -r /etc\<close>;
  the line \<open>toor\<close> then leaves the terminal in normal mode with the stored snapshot
  equal to the default one: the current user is \<open>ubuntu\<close>, and \<open>/etc\<close> is still
  there. The buffered command did remove \<open>/etc\<close> from the snapshot that
  \<open>processCommandInternal\<close> loaded and stored (last two conjuncts), and the final
  \<open>saveFileSystem(fs)\<close> of \<open>processCommand\<close> stored the snapshot loaded before it over
  that.
\<close>

theorem sudo_command_effect_lost:
  "sudoMode (fst (enterLine (envAt 1) ''sudo rm -r /etc''
       (initialTerminalState, initialCommandHistory, freshWorld))) \<and>
   sudoCommand (fst (enterLine (envAt 1) ''sudo rm -r /etc''
       (initialTerminalState, initialCommandHistory, freshWorld))) = ''rm -r /etc'' \<and>
   \<not> sudoMode (fst (enterLine (envAt 2) ''toor''
       (enterLine (envAt 1) ''sudo rm -r /etc'' (initialTerminalState, initialCommandHistory, freshWorld)))) \<and>
   storage (snd (snd (enterLine (envAt 2) ''toor''
       (enterLine (envAt 1) ''sudo rm -r /etc'' (initialTerminalState, initialCommandHistory, freshWorld)))))
     = Some (defaultFileSystem 0) \<and>
   currentUser (defaultFileSystem 0) = ''ubuntu'' \<and>
   storedNode (snd (snd (enterLine (envAt 2) ''toor''
       (enterLine (envAt 1) ''sudo rm -r /etc'' (initialTerminalState, initialCommandHistory, freshWorld)))))
     ''/etc'' \<noteq> None \<and>
   storage (snd (processCommandInternal (envAt 2) ''rm -r /etc'' initialTerminalState
       \<lparr>storage = Some ((defaultFileSystem 0)\<lparr>currentUser := ''root''\<rparr>),
        defaultObject = defaultFileSystem 0\<rparr>)) \<noteq> None \<and>
   storedNode (snd (processCommandInternal (envAt 2) ''rm -r /etc'' initialTerminalState
       \<lparr>storage = Some ((defaultFileSystem 0)\<lparr>currentUser := ''root''\<rparr>),
        defaultObject = defaultFileSystem 0\<rparr>)) ''/etc'' = None"
  by code_simp

text \<open>
  The same holds of every buffered command: after a correct password the stored snapshot
  is the one \<open>processCommand\<close> loaded at its start, and the module's snapshot is as it
  was.
\<close>

lemma sudo_flow_restores_snapshot:
  assumes "sudoMode state" "truthy pw" "authenticateUser (loadFileSystem w) ''root'' (passwordText pw)"
  shows "snd (processCommand e command state pw w) =
           \<lparr>storage = Some (loadFileSystem w), defaultObject = defaultObject w\<rparr>"
proof (cases "storage w")
  case None
  then show ?thesis
    using assms
    by (simp add: processCommand_def processCommandInternal_def afterCall_def saveFileSystem_def
        loadFileSystem_def Let_def split: prod.splits)
next
  case (Some fs)
  then show ?thesis
    using assms
    by (simp add: processCommand_def processCommandInternal_def afterCall_def saveFileSystem_def
        loadFileSystem_def Let_def split: prod.splits)
qed

section \<open>echo and cat\<close>

text \<open>
  What \<open>echo\<close> does in the cases the source handles, with \<open>k\<close> the position of the
  first \<open>>\<close> in the text after the command word. Write mode, for a target whose name
  after the last slash is not empty and no property name of \<open>Object.prototype\<close>, and
  whose parent is a directory: an absent target is
  created as a file with the text, a file gets the text as its content, and a directory
  gives the error line. Append mode, for an existing target: a file gets a line feed and
  the text added to its content, and a directory gives the error line.
\<close>

lemma caseEcho_write:
  assumes idx: "indexOf (join '' '' (drop 1 args)) CHR ''>'' = int k"
    and rp: "redirectPath = trim (drop (Suc k) (join '' '' (drop 1 args)))"
    and ct: "cont = trim (take k (join '' '' (drop 1 args)))"
    and wr: "\<not> startsWith redirectPath ''>''"
    and wp: "writePath = resolvePath fs redirectPath (currentPath state)"
    and nm: "nameOf writePath \<noteq> []"
    and nin: "nameOf writePath \<notin> set objectPrototypeNames"
    and par: "getNode fs (parentPathOf writePath) = Some p" "ntype p = Directory"
  shows "case getNode fs writePath of
           None \<Rightarrow>
             (\<exists>fs'. caseEcho e args state fs st = (result [], fs', Some fs') \<and>
                getNode fs' writePath = Some (newNode File cont (currentUser fs) (dateNow e) (dateNow e)))
         | Some c \<Rightarrow>
             if ntype c = File then
               (\<exists>fs'. caseEcho e args state fs st = (result [], fs', Some fs') \<and>
                  getNode fs' writePath = Some (set_modified (dateNow e) (set_content (Some cont) c)))
             else caseEcho e args state fs st =
                    (result [''echo: '' @ redirectPath @ '': Is a directory''], fs, st)"
proof -
  let ?ch = "childrenOrEmpty p"
  let ?fs1 = "modifyNode fs (parentPathOf writePath) (set_children (Some ?ch))"
  have look: "getNode fs writePath = map_of ?ch (nameOf writePath)"
    using par(1) by (simp add: getNode_child[OF nm] childrenOrEmpty_def split: option.splits)
  have nat1: "nat (int k + 1) = Suc k" by simp
  show ?thesis
  proof (cases "map_of ?ch (nameOf writePath)")
    case None
    have p1: "getNode ?fs1 (parentPathOf writePath) = Some (set_children (Some ?ch) p)"
      using par(1) by (simp add: getNode_modifyNode_same)
    have acc: "parentAccepts ?fs1 writePath"
      using p1 par(2) None by (simp add: parentAccepts_def childrenOrEmpty_def)
    from createNode_result[OF nm nin acc, of File cont "dateNow e" "dateNow e" st]
    obtain fs' where c: "createNode ?fs1 writePath File cont (dateNow e) (dateNow e) st = (True, fs', Some fs')"
      "getNode fs' writePath = Some (newNode File cont (currentUser ?fs1) (dateNow e) (dateNow e))"
      by blast
    have u: "currentUser ?fs1 = currentUser fs" by (simp add: modifyNode_def)
    have "caseEcho e args state fs st = (result [], fs', Some fs')"
      using idx wr par None c(1) nat1 nin unfolding wp rp ct
      by (simp add: caseEcho_def Let_def saveFileSystem_def)
    then show ?thesis using look None c(2) u by simp
  next
    case (Some c)
    then have chs: "children p \<noteq> None"
      by (auto simp: childrenOrEmpty_def split: option.splits)
    then have "set_children (Some ?ch) p = p"
      by (auto simp: childrenOrEmpty_def) (metis set_children_same)
    then have "updAt (set_children (Some ?ch)) (segments (parentPathOf writePath)) (root fs) = root fs"
      using par(1) by (intro updAt_id[of _ _ p]) (simp_all add: getNode_walk)
    then have fs1: "?fs1 = fs" by (simp add: modifyNode_def)
    show ?thesis
    proof (cases "ntype c = File")
      case True
      let ?c' = "set_modified (dateNow e) (set_content (Some cont) c)"
      let ?fs2 = "modifyNode fs (parentPathOf writePath)
                    (set_children (Some (AList.update (nameOf writePath) ?c' ?ch)))"
      have "caseEcho e args state fs st = (result [], ?fs2, Some ?fs2)"
        using idx wr par Some True nat1 fs1 unfolding wp rp ct
        by (simp add: caseEcho_def Let_def saveFileSystem_def)
      moreover have "getNode ?fs2 writePath = Some ?c'"
        using par(1) by (simp add: getNode_child[OF nm] getNode_modifyNode_same update_conv')
      ultimately show ?thesis using look Some True by simp
    next
      case False
      have "caseEcho e args state fs st =
              (result [''echo: '' @ redirectPath @ '': Is a directory''], fs, st)"
        using idx wr par Some False nat1 fs1 unfolding wp rp ct
        by (simp add: caseEcho_def Let_def)
      then show ?thesis using look Some False by simp
    qed
  qed
qed

lemma caseEcho_append:
  assumes idx: "indexOf (join '' '' (drop 1 args)) CHR ''>'' = int k"
    and rp: "redirectPath = trim (drop 1 (trim (drop (Suc k) (join '' '' (drop 1 args)))))"
    and ct: "cont = trim (take k (join '' '' (drop 1 args)))"
    and ap: "startsWith (trim (drop (Suc k) (join '' '' (drop 1 args)))) ''>''"
    and pa: "appendPath = resolvePath fs redirectPath (currentPath state)"
    and nd: "getNode fs appendPath = Some n"
  shows "if ntype n = File then
           (\<exists>fs'. caseEcho e args state fs st = (result [], fs', Some fs') \<and>
              getNode fs' appendPath =
                Some (set_modified (dateNow e) (set_content (Some (contentOrEmpty n @ [CHR 0x0A] @ cont)) n)))
         else caseEcho e args state fs st =
                (result [''echo: '' @ redirectPath @ '': Is a directory''], fs, st)"
proof -
  have nat1: "nat (int k + 1) = Suc k" by simp
  show ?thesis
  proof (cases "ntype n = File")
    case True
    let ?f = "\<lambda>m. set_modified (dateNow e) (set_content (Some (contentOrEmpty m @ [CHR 0x0A] @ cont)) m)"
    let ?fs1 = "modifyNode fs appendPath ?f"
    have "caseEcho e args state fs st = (result [], ?fs1, Some ?fs1)"
      using idx ap nd True nat1 unfolding pa rp ct
      by (simp add: caseEcho_def Let_def saveFileSystem_def)
    moreover have "getNode ?fs1 appendPath = Some (?f n)"
      using nd by (simp add: getNode_modifyNode_same)
    ultimately show ?thesis using True by simp
  next
    case False
    have "caseEcho e args state fs st =
            (result [''echo: '' @ redirectPath @ '': Is a directory''], fs, st)"
      using idx ap nd False nat1 unfolding pa rp ct
      by (simp add: caseEcho_def Let_def)
    then show ?thesis using False by simp
  qed
qed


text \<open>
  Claim C8 does not hold of the code where it says that \<open>echo\<close> with \<open>>\<close> errors on a
  directory target. \<open>echo hi > /\<close> prints nothing, although \<open>/\<close> is a directory: the name
  after the last slash is empty, no child of that name exists, and the \<open>createNode\<close>
  that is tried fails without a message. The same holds for \<open>/tmp/\<close>. The append mode
  reports \<open>Is a directory\<close> for the same target, and the write mode does for \<open>/tmp\<close>.
\<close>

theorem echo_write_to_root_silent:
  "r_output (fst (processCommand (envAt 1) ''echo hi > /'' initialTerminalState None freshWorld)) = [] \<and>
   map_option ntype
     (getNode (loadFileSystem freshWorld) (resolvePath (loadFileSystem freshWorld) ''/'' ''/home/ubuntu''))
     = Some Directory \<and>
   r_output (fst (processCommand (envAt 1) ''echo hi >> /'' initialTerminalState None freshWorld))
     = [''echo: /: Is a directory''] \<and>
   r_output (fst (processCommand (envAt 1) ''echo hi > /tmp'' initialTerminalState None freshWorld))
     = [''echo: /tmp: Is a directory''] \<and>
   r_output (fst (processCommand (envAt 1) ''echo hi > /tmp/'' initialTerminalState None freshWorld)) = []"
  by code_simp

text \<open>
  The scenario of claim C8 on the default snapshot: after \<open>echo hello > a.txt\<close>,
  \<open>cat a.txt\<close> prints the line \<open>hello\<close>; after \<open>echo world >> a.txt\<close> it prints
  \<open>hello\<close> and \<open>world\<close>.
\<close>

theorem echo_cat_scenario:
  "outputLines (fst (enterLine (envAt 2) ''cat a.txt''
      (enterLine (envAt 1) ''echo hello > a.txt'' (initialTerminalState, initialCommandHistory, freshWorld)))) =
     outputLines initialTerminalState @
       [''ubuntu@terminal:/home/ubuntu$ echo hello > a.txt'',
        ''ubuntu@terminal:/home/ubuntu$ cat a.txt'', ''hello''] \<and>
   outputLines (fst (enterLine (envAt 4) ''cat a.txt''
      (enterLine (envAt 3) ''echo world >> a.txt''
        (enterLine (envAt 1) ''echo hello > a.txt'' (initialTerminalState, initialCommandHistory, freshWorld))))) =
     outputLines initialTerminalState @
       [''ubuntu@terminal:/home/ubuntu$ echo hello > a.txt'',
        ''ubuntu@terminal:/home/ubuntu$ echo world >> a.txt'',
        ''ubuntu@terminal:/home/ubuntu$ cat a.txt'', ''hello'', ''world'']"
  by code_simp

end
